theory Spec2Isabelle
  imports Complex_Main "HOL-Library.Char_ord" "HOL-Library.List_Lexorder"
    "HOL-Library.Product_Lexorder"
begin

section \<open>CityBike analytics: cleaning pipeline, statistics, pricing and queries\<close>

text \<open>
  The development embeds \<^verbatim>\<open>pricing.py\<close>, \<^verbatim>\<open>numerical.py\<close> and the class
  \<^verbatim>\<open>BikeShareSystem\<close> of \<^verbatim>\<open>analyzer.py\<close>.

  Conventions of the embedding.
  \<^item> A Python \<^verbatim>\<open>float\<close> (and a NumPy \<^verbatim>\<open>float64\<close>) is a \<^typ>\<open>real\<close>: rounding
    error, infinities and overflow are abstracted. The missing marker (NaN, NaT, \<^verbatim>\<open><NA>\<close>)
    is never a number of the model: it is the separate cell \<open>Missing\<close> below, or \<open>None\<close>.
  \<^item> A NumPy array or a pandas column is a list; a data frame is a list of rows, in row
    order.
\<close>

subsection \<open>pricing.py\<close>

datatype PricingStrategy = CasualPricing | MemberPricing | PeakHourPricing

definition CasualPricing_UNLOCK_FEE :: real where "CasualPricing_UNLOCK_FEE = 1.00"
definition CasualPricing_PER_MINUTE :: real where "CasualPricing_PER_MINUTE = 0.15"
definition CasualPricing_PER_KM :: real where "CasualPricing_PER_KM = 0.10"
definition MemberPricing_PER_MINUTE :: real where "MemberPricing_PER_MINUTE = 0.08"
definition MemberPricing_PER_KM :: real where "MemberPricing_PER_KM = 0.05"
definition PeakHourPricing_MULTIPLIER :: real where "PeakHourPricing_MULTIPLIER = 1.5"

text \<open>The method \<^verbatim>\<open>calculate_cost\<close> of each subclass; \<^verbatim>\<open>PeakHourPricing._base\<close> is a
  \<^verbatim>\<open>CasualPricing\<close> instance, so its method calls the casual one.\<close>

definition CasualPricing_calculate_cost :: "real \<Rightarrow> real \<Rightarrow> real" where
  "CasualPricing_calculate_cost duration_minutes distance_km =
     CasualPricing_UNLOCK_FEE + CasualPricing_PER_MINUTE * duration_minutes
       + CasualPricing_PER_KM * distance_km"

definition MemberPricing_calculate_cost :: "real \<Rightarrow> real \<Rightarrow> real" where
  "MemberPricing_calculate_cost duration_minutes distance_km =
     MemberPricing_PER_MINUTE * duration_minutes + MemberPricing_PER_KM * distance_km"

definition PeakHourPricing_calculate_cost :: "real \<Rightarrow> real \<Rightarrow> real" where
  "PeakHourPricing_calculate_cost duration_minutes distance_km =
     PeakHourPricing_MULTIPLIER * CasualPricing_calculate_cost duration_minutes distance_km"

text \<open>Dynamic dispatch on the strategy object.\<close>

fun calculate_cost :: "PricingStrategy \<Rightarrow> real \<Rightarrow> real \<Rightarrow> real" where
  "calculate_cost CasualPricing = CasualPricing_calculate_cost"
| "calculate_cost MemberPricing = MemberPricing_calculate_cost"
| "calculate_cost PeakHourPricing = PeakHourPricing_calculate_cost"

subsection \<open>numerical.py\<close>

text \<open>\<^verbatim>\<open>np.mean\<close> and \<^verbatim>\<open>np.std\<close> (population standard deviation, \<^verbatim>\<open>ddof=0\<close>) of a
  non-empty array.\<close>

definition np_mean :: "real list \<Rightarrow> real" where
  "np_mean v = sum_list v / real (length v)"

definition np_std :: "real list \<Rightarrow> real" where
  "np_std v = sqrt (np_mean (map (\<lambda>x. (x - np_mean v)\<^sup>2) v))"

text \<open>
  \<^verbatim>\<open>detect_outliers_zscore\<close>. On an empty array NumPy's mean and standard deviation are
  NaN, the guard \<^verbatim>\<open>std == 0.0\<close> is false and the comparison over no elements gives the
  empty mask; that path is the first branch.
\<close>

definition detect_outliers_zscore :: "real list \<Rightarrow> real \<Rightarrow> bool list" where
  "detect_outliers_zscore v threshold =
     (if v = [] then []
      else let mean = np_mean v; std = np_std v
           in if std = 0 then map (\<lambda>_. False) v
              else map (\<lambda>x. \<bar>(x - mean) / std\<bar> \<ge> threshold) v)"

text \<open>\<^verbatim>\<open>calculate_fares\<close>: NumPy broadcasting over two arrays of one length (the two
  columns of one frame); arrays of different lengths raise.\<close>

definition calculate_fares :: "real list \<Rightarrow> real list \<Rightarrow> real \<Rightarrow> real \<Rightarrow> real \<Rightarrow> real list option" where
  "calculate_fares durations distances per_minute per_km unlock_fee =
     (if length durations = length distances
      then Some (map (\<lambda>(d, k). unlock_fee + per_minute * d + per_km * k) (zip durations distances))
      else None)"

section \<open>analyzer.py: tables and pandas primitives\<close>

subsection \<open>Cells, rows and the system state\<close>

text \<open>
  A cell of a data frame. \<^verbatim>\<open>pd.read_csv\<close> yields numbers, text and the missing marker;
  cleaning adds timestamps (\<^verbatim>\<open>datetime64[ns]\<close>, here nanoseconds since the epoch).
  \<open>Missing\<close> stands for NaN, NaT and \<^verbatim>\<open><NA>\<close> alike.
\<close>

datatype cell = Missing | Text string | Integer int | Float real | Timestamp int

record trip =
  trip_id :: cell
  user_id :: cell
  user_type :: cell
  bike_id :: cell
  bike_type :: cell
  start_station_id :: cell
  end_station_id :: cell
  start_time :: cell
  end_time :: cell
  duration_minutes :: cell
  distance_km :: cell
  status :: cell

record station =
  station_id :: cell
  station_name :: cell
  capacity :: cell
  latitude :: cell
  longitude :: cell

text \<open>The maintenance frame has columns \<^verbatim>\<open>bike_id\<close> and \<^verbatim>\<open>bike_type\<close> too; the fields of
  this record carry the prefix \<open>m_\<close> to keep them apart from those of a trip.\<close>

record maintenance_record =
  record_id :: cell
  m_bike_id :: cell
  m_bike_type :: cell
  date :: cell
  maintenance_type :: cell
  cost :: cell

text \<open>The attributes of a \<^verbatim>\<open>BikeShareSystem\<close>; \<open>None\<close> is Python's \<^verbatim>\<open>None\<close>.\<close>

record BikeShareSystem =
  trips :: "trip list option"
  stations :: "station list option"
  maintenance :: "maintenance_record list option"

datatype error = RuntimeError string | TypeError | AttributeError | ZeroDivisionError

text \<open>A method of the class: it returns a value or raises, and leaves a state behind.\<close>

type_synonym 'a action = "BikeShareSystem \<Rightarrow> (error + 'a) \<times> BikeShareSystem"

subsection \<open>What pandas parses and sorts\<close>

text \<open>
  The parsers and the sorting routines of pandas are outside the repository; the code is
  embedded over them as parameters.
  \<^item> \<open>parse_datetime col c\<close>: what \<^verbatim>\<open>pd.to_datetime(col, errors="coerce")\<close> makes of the
    cell \<open>c\<close> of the column \<open>col\<close> when \<open>c\<close> is neither missing nor a timestamp already;
    \<open>None\<close> is NaT. The column is an argument because pandas infers the format from it.
  \<^item> \<open>parse_float s\<close>: what \<^verbatim>\<open>pd.to_numeric(errors="coerce")\<close> makes of the text \<open>s\<close>;
    \<open>None\<close> is NaN.
  \<^item> \<open>str_of c\<close>: \<^verbatim>\<open>str(c)\<close> for a number or a timestamp \<open>c\<close>.
  \<^item> \<open>value_counts_order vals\<close>: the order in which \<^verbatim>\<open>Series.value_counts()\<close> lists
    the distinct values of the column \<open>vals\<close>, as positions in the list of these values by
    first appearance. pandas sorts the counts descending with its default kind, quicksort,
    which is not stable: among values of equal count the order is the library's choice.
  \<^item> \<open>sort_values_order cs\<close>: the order in which
    \<^verbatim>\<open>DataFrame.sort_values(by, ascending=False)\<close> lists the rows of a frame whose column
    \<^verbatim>\<open>by\<close> is \<open>cs\<close>, as positions of rows; the default kind again.
\<close>

record library =
  parse_datetime :: "cell list \<Rightarrow> cell \<Rightarrow> int option"
  parse_float :: "string \<Rightarrow> real option"
  str_of :: "cell \<Rightarrow> string"
  value_counts_order :: "cell list \<Rightarrow> nat list"
  sort_values_order :: "nat list \<Rightarrow> nat list"

text \<open>\<^verbatim>\<open>pd.to_datetime(col, errors="coerce")\<close>, cell by cell: a \<^verbatim>\<open>datetime64\<close> value and
  a missing one are kept.\<close>

definition to_datetime :: "library \<Rightarrow> cell list \<Rightarrow> cell \<Rightarrow> cell" where
  "to_datetime cv col c =
     (case c of
        Missing \<Rightarrow> Missing
      | Timestamp t \<Rightarrow> Timestamp t
      | _ \<Rightarrow> (case parse_datetime cv col c of None \<Rightarrow> Missing | Some t \<Rightarrow> Timestamp t))"

text \<open>\<^verbatim>\<open>pd.to_numeric(col, errors="coerce")\<close>, cell by cell. An \<^verbatim>\<open>int64\<close> value is kept
  as the equal float (the model does not tell the two column types apart); a
  \<^verbatim>\<open>datetime64\<close> value becomes its count of nanoseconds.\<close>

definition to_numeric :: "library \<Rightarrow> cell \<Rightarrow> cell" where
  "to_numeric cv c =
     (case c of
        Missing \<Rightarrow> Missing
      | Text s \<Rightarrow> (case parse_float cv s of None \<Rightarrow> Missing | Some x \<Rightarrow> Float x)
      | Integer n \<Rightarrow> Float (real_of_int n)
      | Float x \<Rightarrow> Float x
      | Timestamp t \<Rightarrow> Float (real_of_int t))"

text \<open>\<^verbatim>\<open>.astype("Int64")\<close> on a numeric column: a missing value stays missing and an
  integral float within the range of \<^verbatim>\<open>int64\<close> becomes the integer; the cast raises
  \<^verbatim>\<open>TypeError\<close> when some value of the column is a float that is no integer or lies
  beyond that range (\<open>Int64_castable\<close> fails for it).\<close>

definition int64_range :: "int \<Rightarrow> bool" where
  "int64_range n = (- (2 ^ 63) \<le> n \<and> n < 2 ^ 63)"

definition Int64_castable :: "cell \<Rightarrow> bool" where
  "Int64_castable c =
     (case c of
        Missing \<Rightarrow> True
      | Integer n \<Rightarrow> int64_range n
      | Float x \<Rightarrow> real_of_int \<lfloor>x\<rfloor> = x \<and> int64_range \<lfloor>x\<rfloor>
      | _ \<Rightarrow> False)"

definition to_Int64 :: "cell \<Rightarrow> cell" where
  "to_Int64 c = (case c of Float x \<Rightarrow> Integer \<lfloor>x\<rfloor> | Integer n \<Rightarrow> Integer n | _ \<Rightarrow> Missing)"

subsection \<open>Text normalisation\<close>

text \<open>\<^verbatim>\<open>str.lower\<close> and \<^verbatim>\<open>str.strip\<close> on ASCII text: the letters A to Z, and the white
  space of Python (code points 9 to 13 and 28 to 32). Bytes beyond ASCII are left as they
  are.\<close>

definition lower_char :: "char \<Rightarrow> char" where
  "lower_char c = (let n = (of_char c :: nat) in if 65 \<le> n \<and> n \<le> 90 then char_of (n + 32) else c)"

definition is_space :: "char \<Rightarrow> bool" where
  "is_space c = (let n = (of_char c :: nat) in (9 \<le> n \<and> n \<le> 13) \<or> (28 \<le> n \<and> n \<le> 32))"

definition str_lower :: "string \<Rightarrow> string" where
  "str_lower s = map lower_char s"

definition str_strip :: "string \<Rightarrow> string" where
  "str_strip s = rev (dropWhile is_space (rev (dropWhile is_space s)))"

text \<open>\<^verbatim>\<open>.astype(str)\<close>: text is kept, the missing marker becomes the text \<^verbatim>\<open>nan\<close>.\<close>

definition astype_str :: "library \<Rightarrow> cell \<Rightarrow> string" where
  "astype_str cv c = (case c of Text s \<Rightarrow> s | Missing \<Rightarrow> ''nan'' | _ \<Rightarrow> str_of cv c)"

text \<open>\<^verbatim>\<open>col.astype(str).str.lower().str.strip()\<close>.\<close>

definition normalize_text :: "library \<Rightarrow> cell \<Rightarrow> cell" where
  "normalize_text cv c = Text (str_strip (str_lower (astype_str cv c)))"

subsection \<open>Column statistics and row selection\<close>

text \<open>The non-missing numbers of a column (what \<^verbatim>\<open>skipna\<close> keeps).\<close>

fun floats :: "cell list \<Rightarrow> real list" where
  "floats [] = []"
| "floats (Float x # cs) = x # floats cs"
| "floats (Integer n # cs) = real_of_int n # floats cs"
| "floats (_ # cs) = floats cs"

text \<open>\<^verbatim>\<open>Series.median()\<close>: the median of the non-missing values, NaN when there is none.\<close>

definition median_of :: "real list \<Rightarrow> real option" where
  "median_of xs =
     (if xs = [] then None
      else let s = sort xs; n = length s
           in if odd n then Some (s ! (n div 2))
              else Some ((s ! (n div 2 - 1) + s ! (n div 2)) / 2))"

definition median :: "cell list \<Rightarrow> real option" where
  "median col = median_of (floats col)"

text \<open>\<^verbatim>\<open>Series.fillna(v)\<close>; filling with NaN changes nothing.\<close>

definition fillna :: "cell option \<Rightarrow> cell \<Rightarrow> cell" where
  "fillna v c = (case c of Missing \<Rightarrow> (case v of None \<Rightarrow> Missing | Some w \<Rightarrow> w) | _ \<Rightarrow> c)"

text \<open>\<^verbatim>\<open>Series.mode(dropna=True)\<close> on a text column: the most frequent values in ascending
  order.\<close>

fun texts :: "cell list \<Rightarrow> string list" where
  "texts [] = []"
| "texts (Text s # cs) = s # texts cs"
| "texts (_ # cs) = texts cs"

definition mode :: "cell list \<Rightarrow> string list" where
  "mode col =
     (let xs = texts col; m = fold max (map (count_list xs) xs) 0
      in sort (filter (\<lambda>s. count_list xs s = m) (remdups xs)))"

text \<open>\<^verbatim>\<open>df[c] = f(df[c])\<close>: the column \<open>c\<close> (read by \<open>get\<close>, written by \<open>put\<close>) is replaced
  cell by cell; \<open>f\<close> sees the whole column as well.\<close>

definition assign_column ::
  "('r \<Rightarrow> cell) \<Rightarrow> (cell \<Rightarrow> 'r \<Rightarrow> 'r) \<Rightarrow> (cell list \<Rightarrow> cell \<Rightarrow> cell) \<Rightarrow> 'r list \<Rightarrow> 'r list" where
  "assign_column get put f rows = (let col = map get rows in map (\<lambda>r. put (f col (get r)) r) rows)"

text \<open>\<^verbatim>\<open>df.drop_duplicates(subset=[key])\<close>: the first row of each key is kept, in row order;
  missing keys count as equal to one another.\<close>

fun drop_duplicates_from :: "cell list \<Rightarrow> ('r \<Rightarrow> cell) \<Rightarrow> 'r list \<Rightarrow> 'r list" where
  "drop_duplicates_from seen key [] = []"
| "drop_duplicates_from seen key (r # rs) =
     (if key r \<in> set seen then drop_duplicates_from seen key rs
      else r # drop_duplicates_from (key r # seen) key rs)"

definition drop_duplicates :: "('r \<Rightarrow> cell) \<Rightarrow> 'r list \<Rightarrow> 'r list" where
  "drop_duplicates key rows = drop_duplicates_from [] key rows"

text \<open>Comparisons of columns; a comparison with a missing value is false.\<close>

definition time_ge :: "cell \<Rightarrow> cell \<Rightarrow> bool" where
  "time_ge a b = (case (a, b) of (Timestamp x, Timestamp y) \<Rightarrow> x \<ge> y | _ \<Rightarrow> False)"

definition num_ge :: "cell \<Rightarrow> real \<Rightarrow> bool" where
  "num_ge c b = (case c of Float x \<Rightarrow> x \<ge> b | Integer n \<Rightarrow> real_of_int n \<ge> b | _ \<Rightarrow> False)"

definition num_gt :: "cell \<Rightarrow> real \<Rightarrow> bool" where
  "num_gt c b = (case c of Float x \<Rightarrow> x > b | Integer n \<Rightarrow> real_of_int n > b | _ \<Rightarrow> False)"

text \<open>\<^verbatim>\<open>Series.between(lo, hi)\<close>, both ends included.\<close>

definition between :: "cell \<Rightarrow> real \<Rightarrow> real \<Rightarrow> bool" where
  "between c lo hi =
     (case c of Float x \<Rightarrow> lo \<le> x \<and> x \<le> hi
              | Integer n \<Rightarrow> lo \<le> real_of_int n \<and> real_of_int n \<le> hi
              | _ \<Rightarrow> False)"

text \<open>\<^verbatim>\<open>Series.isin(values)\<close> for a list of texts.\<close>

definition isin :: "cell \<Rightarrow> string list \<Rightarrow> bool" where
  "isin c vs = (case c of Text s \<Rightarrow> s \<in> set vs | _ \<Rightarrow> False)"

text \<open>\<^verbatim>\<open>(end - start).dt.total_seconds() / 60.0\<close>; a difference with NaT is NaN.\<close>

definition minutes_between :: "cell \<Rightarrow> cell \<Rightarrow> cell" where
  "minutes_between s e =
     (case (s, e) of
        (Timestamp a, Timestamp b) \<Rightarrow> Float (real_of_int (b - a) / 10 ^ 9 / 60)
      | _ \<Rightarrow> Missing)"

text \<open>\<^verbatim>\<open>Series.clip(lower=0)\<close>.\<close>

definition clip_lower :: "real \<Rightarrow> cell \<Rightarrow> cell" where
  "clip_lower b c = (case c of Float x \<Rightarrow> Float (max x b) | _ \<Rightarrow> c)"

section \<open>analyzer.py: \<^verbatim>\<open>clean_data\<close>\<close>

text \<open>The trips block of \<^verbatim>\<open>clean_data\<close>, one binding per statement of the source.\<close>

definition clean_trips :: "library \<Rightarrow> trip list \<Rightarrow> trip list" where
  "clean_trips cv raw =
     (let df = drop_duplicates trip_id raw;
          df = assign_column start_time (\<lambda>v r. r\<lparr>start_time := v\<rparr>) (to_datetime cv) df;
          df = assign_column end_time (\<lambda>v r. r\<lparr>end_time := v\<rparr>) (to_datetime cv) df;
          df = assign_column duration_minutes (\<lambda>v r. r\<lparr>duration_minutes := v\<rparr>)
                 (\<lambda>_. to_numeric cv) df;
          df = assign_column distance_km (\<lambda>v r. r\<lparr>distance_km := v\<rparr>) (\<lambda>_. to_numeric cv) df;
          df = assign_column user_type (\<lambda>v r. r\<lparr>user_type := v\<rparr>) (\<lambda>_. normalize_text cv) df;
          df = assign_column bike_type (\<lambda>v r. r\<lparr>bike_type := v\<rparr>) (\<lambda>_. normalize_text cv) df;
          df = assign_column status (\<lambda>v r. r\<lparr>status := v\<rparr>) (\<lambda>_. normalize_text cv) df;
          df = assign_column status (\<lambda>v r. r\<lparr>status := v\<rparr>)
                 (\<lambda>_ c. if isin c [''nan'', ''none'', []] then Missing else c) df;
          mode_status = mode (map status df);
          fill_status = (case mode_status of [] \<Rightarrow> ''completed'' | m # _ \<Rightarrow> m);
          df = assign_column status (\<lambda>v r. r\<lparr>status := v\<rparr>)
                 (\<lambda>_. fillna (Some (Text fill_status))) df;
          df = assign_column duration_minutes (\<lambda>v r. r\<lparr>duration_minutes := v\<rparr>)
                 (\<lambda>col. fillna (map_option Float (median col))) df;
          df = assign_column distance_km (\<lambda>v r. r\<lparr>distance_km := v\<rparr>)
                 (\<lambda>col. fillna (map_option Float (median col))) df;
          df = filter (\<lambda>r. start_time r \<noteq> Missing \<and> end_time r \<noteq> Missing) df;
          df = filter (\<lambda>r. time_ge (end_time r) (start_time r)) df;
          df = filter (\<lambda>r. num_ge (duration_minutes r) 0) df;
          df = filter (\<lambda>r. num_ge (distance_km r) 0) df;
          df = filter (\<lambda>r. isin (user_type r) [''casual'', ''member'']) df;
          df = filter (\<lambda>r. isin (bike_type r) [''classic'', ''electric'']) df;
          df = filter (\<lambda>r. isin (status r) [''completed'', ''cancelled'']) df;
          df = map (\<lambda>r. r\<lparr>duration_minutes := minutes_between (start_time r) (end_time r)\<rparr>) df;
          df = assign_column duration_minutes (\<lambda>v r. r\<lparr>duration_minutes := v\<rparr>)
                 (\<lambda>_. clip_lower 0) df
      in df)"

text \<open>The stations block; the cast of \<^verbatim>\<open>capacity\<close> to \<^verbatim>\<open>Int64\<close> may raise.\<close>

definition clean_stations :: "library \<Rightarrow> station list \<Rightarrow> error + station list" where
  "clean_stations cv raw =
     (let df = drop_duplicates station_id raw;
          df = assign_column capacity (\<lambda>v r. r\<lparr>capacity := v\<rparr>) (\<lambda>_. to_numeric cv) df
      in if \<not> list_all Int64_castable (map capacity df) then Inl TypeError
         else
           let df = assign_column capacity (\<lambda>v r. r\<lparr>capacity := v\<rparr>) (\<lambda>_. to_Int64) df;
               df = assign_column latitude (\<lambda>v r. r\<lparr>latitude := v\<rparr>) (\<lambda>_. to_numeric cv) df;
               df = assign_column longitude (\<lambda>v r. r\<lparr>longitude := v\<rparr>) (\<lambda>_. to_numeric cv) df;
               df = filter (\<lambda>r. station_id r \<noteq> Missing \<and> station_name r \<noteq> Missing
                              \<and> capacity r \<noteq> Missing \<and> latitude r \<noteq> Missing
                              \<and> longitude r \<noteq> Missing) df;
               df = filter (\<lambda>r. num_gt (capacity r) 0) df;
               df = filter (\<lambda>r. between (latitude r) (- 90) 90 \<and> between (longitude r) (- 180) 180) df
           in Inr df)"

text \<open>The maintenance block. \<^verbatim>\<open>groupby("bike_type")["cost"].transform(...)\<close> fills a
  missing cost with the median of the costs of the rows of the same bike type.\<close>

definition clean_maintenance :: "library \<Rightarrow> maintenance_record list \<Rightarrow> maintenance_record list" where
  "clean_maintenance cv raw =
     (let df = drop_duplicates record_id raw;
          df = assign_column date (\<lambda>v r. r\<lparr>date := v\<rparr>) (to_datetime cv) df;
          df = assign_column cost (\<lambda>v r. r\<lparr>cost := v\<rparr>) (\<lambda>_. to_numeric cv) df;
          df = assign_column m_bike_type (\<lambda>v r. r\<lparr>m_bike_type := v\<rparr>) (\<lambda>_. normalize_text cv) df;
          df = assign_column maintenance_type (\<lambda>v r. r\<lparr>maintenance_type := v\<rparr>)
                 (\<lambda>_. normalize_text cv) df;
          df = filter (\<lambda>r. record_id r \<noteq> Missing \<and> m_bike_id r \<noteq> Missing
                         \<and> m_bike_type r \<noteq> Missing \<and> date r \<noteq> Missing
                         \<and> maintenance_type r \<noteq> Missing) df;
          df = filter (\<lambda>r. isin (m_bike_type r) [''classic'', ''electric'']) df;
          overall_med = median (map cost df);
          df = map (\<lambda>r. r\<lparr>cost :=
                      fillna (map_option Float
                                (median (map cost (filter (\<lambda>q. m_bike_type q = m_bike_type r) df))))
                        (cost r)\<rparr>) df;
          df = assign_column cost (\<lambda>v r. r\<lparr>cost := v\<rparr>)
                 (\<lambda>_. fillna (map_option Float overall_med)) df
      in df)"

text \<open>
  \<^verbatim>\<open>clean_data\<close>. The three frames are cleaned on copies and assigned together at the end,
  so a raise leaves the state as it was. Writing the \<^verbatim>\<open>*_clean.csv\<close> files is input/output
  and not part of the model.
\<close>

definition clean_data :: "library \<Rightarrow> unit action" where
  "clean_data cv self =
     (case (trips self, stations self, maintenance self) of
        (Some t, Some s, Some m) \<Rightarrow>
          (case clean_stations cv s of
             Inl e \<Rightarrow> (Inl e, self)
           | Inr s' \<Rightarrow>
               (Inr (), self\<lparr>trips := Some (clean_trips cv t), stations := Some s',
                               maintenance := Some (clean_maintenance cv m)\<rparr>))
      | _ \<Rightarrow> (Inl (RuntimeError ''Call load_data() first''), self))"

section \<open>analyzer.py: the analytics queries\<close>

subsection \<open>The guards\<close>

text \<open>The helpers \<^verbatim>\<open>_trips\<close>, \<^verbatim>\<open>_stations\<close> and \<^verbatim>\<open>_maint\<close>: the frame, or a
  \<^verbatim>\<open>RuntimeError\<close> when the attribute is \<^verbatim>\<open>None\<close>.\<close>

definition the_trips :: "BikeShareSystem \<Rightarrow> error + trip list" where
  "the_trips self =
     (case trips self of None \<Rightarrow> Inl (RuntimeError ''Trips not loaded'') | Some df \<Rightarrow> Inr df)"

definition the_stations :: "BikeShareSystem \<Rightarrow> error + station list" where
  "the_stations self =
     (case stations self of None \<Rightarrow> Inl (RuntimeError ''Stations not loaded'') | Some df \<Rightarrow> Inr df)"

definition the_maint :: "BikeShareSystem \<Rightarrow> error + maintenance_record list" where
  "the_maint self =
     (case maintenance self of
        None \<Rightarrow> Inl (RuntimeError ''Maintenance not loaded'')
      | Some df \<Rightarrow> Inr df)"

text \<open>
  A query reads one or two frames through the guards and computes its result from them;
  it assigns no attribute, so the state it leaves is the state it was called in.
  \<open>on_trips\<close>, \<open>on_trips_stations\<close> and \<open>on_maint\<close> are the three shapes the queries have
  (\<^verbatim>\<open>df = self._trips()\<close>, then \<^verbatim>\<open>st = self._stations()\<close> where there is one).
\<close>

definition on_trips :: "(trip list \<Rightarrow> error + 'a) \<Rightarrow> 'a action" where
  "on_trips body self =
     (case the_trips self of Inl e \<Rightarrow> (Inl e, self) | Inr df \<Rightarrow> (body df, self))"

definition on_trips_stations :: "(trip list \<Rightarrow> station list \<Rightarrow> error + 'a) \<Rightarrow> 'a action" where
  "on_trips_stations body self =
     (case the_trips self of
        Inl e \<Rightarrow> (Inl e, self)
      | Inr df \<Rightarrow>
          (case the_stations self of Inl e \<Rightarrow> (Inl e, self) | Inr st \<Rightarrow> (body df st, self)))"

definition on_maint :: "(maintenance_record list \<Rightarrow> error + 'a) \<Rightarrow> 'a action" where
  "on_maint body self =
     (case the_maint self of Inl e \<Rightarrow> (Inl e, self) | Inr m \<Rightarrow> (body m, self))"

subsection \<open>Series operations\<close>

text \<open>
  The numbers of a numeric column, the missing values skipped (what \<^verbatim>\<open>sum\<close> and
  \<^verbatim>\<open>mean\<close> aggregate, and what \<^verbatim>\<open>to_numpy\<close> hands to NumPy when nothing is missing).
  A column that holds text or timestamps is no numeric column: pandas raises on it (or
  concatenates text); the model raises \<^verbatim>\<open>TypeError\<close>.
\<close>

fun numbers :: "cell list \<Rightarrow> error + real list" where
  "numbers [] = Inr []"
| "numbers (c # cs) =
     (case numbers cs of
        Inl e \<Rightarrow> Inl e
      | Inr xs \<Rightarrow>
          (case c of
             Missing \<Rightarrow> Inr xs
           | Float x \<Rightarrow> Inr (x # xs)
           | Integer n \<Rightarrow> Inr (real_of_int n # xs)
           | _ \<Rightarrow> Inl TypeError))"

text \<open>The timestamps of a \<^verbatim>\<open>datetime64\<close> column, NaT skipped. The \<^verbatim>\<open>.dt\<close> accessor and
  \<^verbatim>\<open>total_seconds\<close> do not exist on other columns: \<^verbatim>\<open>AttributeError\<close> for numbers,
  \<^verbatim>\<open>TypeError\<close> for text (a difference of two texts).\<close>

fun timestamps :: "cell list \<Rightarrow> error + int list" where
  "timestamps [] = Inr []"
| "timestamps (c # cs) =
     (case timestamps cs of
        Inl e \<Rightarrow> Inl e
      | Inr ts \<Rightarrow>
          (case c of
             Missing \<Rightarrow> Inr ts
           | Timestamp t \<Rightarrow> Inr (t # ts)
           | Text s \<Rightarrow> Inl TypeError
           | _ \<Rightarrow> Inl AttributeError))"

text \<open>\<^verbatim>\<open>Series.unique()\<close>: the values in the order of their first appearance.\<close>

fun unique :: "'a list \<Rightarrow> 'a list" where
  "unique [] = []"
| "unique (x # xs) = x # filter (\<lambda>y. y \<noteq> x) (unique xs)"

text \<open>
  Sorting a table of counts by count, descending. The library computes the positions of
  the rows in their new order and takes the rows at these positions; positions beyond the
  table, which the library never returns, are skipped.
\<close>

definition take_rows :: "'a list \<Rightarrow> nat list \<Rightarrow> 'a list" where
  "take_rows rows idx = map (\<lambda>i. rows ! i) (filter (\<lambda>i. i < length rows) idx)"


text \<open>\<^verbatim>\<open>sort_values("trip_count", ascending=False)\<close> on a table of counts.\<close>

definition sort_values_desc :: "library \<Rightarrow> ('k \<times> nat) list \<Rightarrow> ('k \<times> nat) list" where
  "sort_values_desc cv rows = take_rows rows (sort_values_order cv (map snd rows))"

text \<open>The distinct values of a column with their counts, in the order of first
  appearance.\<close>

definition counts_first_seen :: "cell list \<Rightarrow> (cell \<times> nat) list" where
  "counts_first_seen vals = map (\<lambda>k. (k, count_list vals k)) (unique vals)"

text \<open>\<^verbatim>\<open>Series.value_counts()\<close>: the non-missing values with their counts, sorted by
  count descending.\<close>

definition value_counts :: "library \<Rightarrow> cell list \<Rightarrow> (cell \<times> nat) list" where
  "value_counts cv col =
     (let vals = filter (\<lambda>c. c \<noteq> Missing) col
      in take_rows (counts_first_seen vals) (value_counts_order cv vals))"

text \<open>\<^verbatim>\<open>counts.merge(st[["station_id", "station_name"]], on="station_id", how="left")\<close>:
  every row of the left table, in order, once per station with its id, and once with a
  missing name when there is none.\<close>

definition merge_station_name :: "station list \<Rightarrow> cell \<Rightarrow> cell list" where
  "merge_station_name st k =
     (case filter (\<lambda>s. station_id s = k) st of
        [] \<Rightarrow> [Missing]
      | ms \<Rightarrow> map station_name ms)"

text \<open>An order on cells for the sorted group keys of \<^verbatim>\<open>groupby\<close>: numbers by value, text
  by code point, timestamps by time (a column holds cells of one kind).\<close>

definition cell_key :: "cell \<Rightarrow> nat \<times> real \<times> string" where
  "cell_key c =
     (case c of
        Missing \<Rightarrow> (0, 0, [])
      | Integer n \<Rightarrow> (1, real_of_int n, [])
      | Float x \<Rightarrow> (1, x, [])
      | Text s \<Rightarrow> (2, 0, s)
      | Timestamp t \<Rightarrow> (3, real_of_int t, []))"

text \<open>\<^verbatim>\<open>df.groupby([a, b])[c].count().reset_index(name=...)\<close>: one row per pair of keys
  that occurs with neither key missing, the pairs in ascending order, with the number of
  rows of the group whose column \<open>c\<close> is not missing.\<close>

definition groupby2_count ::
  "('r \<Rightarrow> cell) \<Rightarrow> ('r \<Rightarrow> cell) \<Rightarrow> ('r \<Rightarrow> cell) \<Rightarrow> 'r list \<Rightarrow> ((cell \<times> cell) \<times> nat) list" where
  "groupby2_count a b c df =
     (let rows = filter (\<lambda>r. a r \<noteq> Missing \<and> b r \<noteq> Missing) df;
          keys = sort_key (\<lambda>(x, y). (cell_key x, cell_key y)) (unique (map (\<lambda>r. (a r, b r)) rows))
      in map (\<lambda>k. (k, length (filter (\<lambda>r. (a r, b r) = k \<and> c r \<noteq> Missing) rows))) keys)"

text \<open>Rounding to \<open>k\<close> decimals as NumPy does: scale, round half to even, scale back.\<close>

definition rint :: "real \<Rightarrow> int" where
  "rint x =
     (let f = \<lfloor>x\<rfloor>; d = x - real_of_int f
      in if d < 1 / 2 then f else if 1 / 2 < d then f + 1 else if even f then f else f + 1)"

definition np_round :: "nat \<Rightarrow> real \<Rightarrow> real" where
  "np_round k x = real_of_int (rint (x * 10 ^ k)) / 10 ^ k"

text \<open>Sequencing of steps that may raise.\<close>

definition then_do :: "error + 'a \<Rightarrow> ('a \<Rightarrow> error + 'b) \<Rightarrow> error + 'b" where
  "then_do x f = (case x of Inl e \<Rightarrow> Inl e | Inr v \<Rightarrow> f v)"

text \<open>\<^verbatim>\<open>Series.to_numpy()\<close> of a numeric column: NaN is \<open>None\<close>. NumPy cannot read a column
  of text or timestamps as floats; the model raises \<^verbatim>\<open>TypeError\<close>.\<close>

fun to_numpy :: "cell list \<Rightarrow> error + real option list" where
  "to_numpy [] = Inr []"
| "to_numpy (c # cs) =
     (case to_numpy cs of
        Inl e \<Rightarrow> Inl e
      | Inr xs \<Rightarrow>
          (case c of
             Missing \<Rightarrow> Inr (None # xs)
           | Float x \<Rightarrow> Inr (Some x # xs)
           | Integer n \<Rightarrow> Inr (Some (real_of_int n) # xs)
           | _ \<Rightarrow> Inl TypeError))"

text \<open>The \<^verbatim>\<open>.dt\<close> accessor: the timestamps of a \<^verbatim>\<open>datetime64\<close> column, NaT as \<open>None\<close>;
  \<^verbatim>\<open>AttributeError\<close> on any other column.\<close>

fun dt :: "cell list \<Rightarrow> error + int option list" where
  "dt [] = Inr []"
| "dt (c # cs) =
     (case dt cs of
        Inl e \<Rightarrow> Inl e
      | Inr ts \<Rightarrow>
          (case c of
             Missing \<Rightarrow> Inr (None # ts)
           | Timestamp t \<Rightarrow> Inr (Some t # ts)
           | _ \<Rightarrow> Inl AttributeError))"

text \<open>Calendar fields of a timestamp (nanoseconds since 1970-01-01, a Thursday).\<close>

definition ns_per_day :: int where "ns_per_day = 86400 * 10 ^ 9"

definition hour_of :: "int \<Rightarrow> int" where
  "hour_of t = (t div (3600 * 10 ^ 9)) mod 24"

definition day_name_of :: "int \<Rightarrow> string" where
  "day_name_of t =
     [''Monday'', ''Tuesday'', ''Wednesday'', ''Thursday'', ''Friday'', ''Saturday'', ''Sunday'']
       ! nat ((t div ns_per_day + 3) mod 7)"

text \<open>The month period (year, month) of a timestamp, by the civil calendar.\<close>

definition month_of :: "int \<Rightarrow> int \<times> int" where
  "month_of t =
     (let z = t div ns_per_day + 719468;
          era = z div 146097;
          doe = z - era * 146097;
          yoe = (doe - doe div 1460 + doe div 36524 - doe div 146096) div 365;
          doy = doe - (365 * yoe + yoe div 4 - yoe div 100);
          mp = (5 * doy + 2) div 153;
          m = (if mp < 10 then mp + 3 else mp - 9);
          y = yoe + era * 400
      in (if m \<le> 2 then y + 1 else y, m))"

text \<open>\<^verbatim>\<open>max()\<close> and \<^verbatim>\<open>min()\<close> of a \<^verbatim>\<open>datetime64\<close> column; NaT (\<open>None\<close>) when it has
  no timestamp.\<close>

fun series_max :: "int list \<Rightarrow> int option" where
  "series_max [] = None"
| "series_max (x # xs) = (case series_max xs of None \<Rightarrow> Some x | Some m \<Rightarrow> Some (max x m))"

fun series_min :: "int list \<Rightarrow> int option" where
  "series_min [] = None"
| "series_min (x # xs) = (case series_min xs of None \<Rightarrow> Some x | Some m \<Rightarrow> Some (min x m))"

text \<open>The sorted keys of \<^verbatim>\<open>df.groupby(a)\<close>: the non-missing values, ascending.\<close>

definition groupby_keys :: "cell list \<Rightarrow> cell list" where
  "groupby_keys col = sort_key cell_key (unique (filter (\<lambda>c. c \<noteq> Missing) col))"

text \<open>Division of floats; Python raises on a zero divisor.\<close>

definition py_div :: "real \<Rightarrow> real \<Rightarrow> error + real" where
  "py_div a b = (if b = 0 then Inl ZeroDivisionError else Inr (a / b))"

subsection \<open>The queries\<close>

text \<open>A float result that may be NaN is a \<open>real option\<close>, \<open>None\<close> for NaN. The number \<open>n\<close>
  of \<^verbatim>\<open>head(n)\<close> is a natural number.\<close>

record trips_summary =
  total_trips :: nat
  total_distance_km :: real
  avg_duration_min :: "real option"

definition total_trips_summary :: "trips_summary action" where
  "total_trips_summary =
     on_trips (\<lambda>df.
       then_do (numbers (map distance_km df)) (\<lambda>ks.
       then_do (numbers (map duration_minutes df)) (\<lambda>ds.
         Inr \<lparr>total_trips = length df,
              total_distance_km = np_round 2 (sum_list ks),
              avg_duration_min = (if ds = [] then None else Some (np_round 2 (np_mean ds)))\<rparr>)))"

text \<open>The rows of \<^verbatim>\<open>top_start_stations\<close> and \<^verbatim>\<open>top_end_stations\<close>:
  (\<^verbatim>\<open>station_id\<close>, \<^verbatim>\<open>trip_count\<close>, \<^verbatim>\<open>station_name\<close>).\<close>

definition top_stations ::
  "library \<Rightarrow> cell list \<Rightarrow> station list \<Rightarrow> nat \<Rightarrow> (cell \<times> nat \<times> cell) list" where
  "top_stations cv col st n =
     concat (map (\<lambda>(k, c). map (\<lambda>name. (k, c, name)) (merge_station_name st k))
               (take n (value_counts cv col)))"

definition top_start_stations :: "library \<Rightarrow> nat \<Rightarrow> (cell \<times> nat \<times> cell) list action" where
  "top_start_stations cv n =
     on_trips_stations (\<lambda>df st. Inr (top_stations cv (map start_station_id df) st n))"

definition top_end_stations :: "library \<Rightarrow> nat \<Rightarrow> (cell \<times> nat \<times> cell) list action" where
  "top_end_stations cv n =
     on_trips_stations (\<lambda>df st. Inr (top_stations cv (map end_station_id df) st n))"

definition peak_usage_hours :: "library \<Rightarrow> (cell \<times> nat) list action" where
  "peak_usage_hours cv =
     on_trips (\<lambda>df.
       then_do (dt (map start_time df)) (\<lambda>ts.
         Inr (sort_key (\<lambda>(k, c). cell_key k)
                (value_counts cv
                   (map (\<lambda>t. case t of None \<Rightarrow> Missing | Some u \<Rightarrow> Integer (hour_of u)) ts)))))"

definition busiest_day_of_week :: "library \<Rightarrow> (cell \<times> nat) list action" where
  "busiest_day_of_week cv =
     on_trips (\<lambda>df.
       then_do (dt (map start_time df)) (\<lambda>ts.
         Inr (value_counts cv
                (map (\<lambda>t. case t of None \<Rightarrow> Missing | Some u \<Rightarrow> Text (day_name_of u)) ts))))"

definition avg_distance_by_user_type :: "(cell \<times> real option) list action" where
  "avg_distance_by_user_type =
     on_trips (\<lambda>df.
       then_do (numbers (map distance_km df)) (\<lambda>_.
         Inr (map (\<lambda>k. let xs = floats (map distance_km (filter (\<lambda>r. user_type r = k) df))
                        in (k, if xs = [] then None else Some (np_round 3 (np_mean xs))))
                (groupby_keys (map user_type df)))))"

definition bike_utilization_rate :: "real option action" where
  "bike_utilization_rate =
     on_trips (\<lambda>df.
       then_do (numbers (map duration_minutes df)) (\<lambda>ds.
       then_do (timestamps (map end_time df)) (\<lambda>es.
       then_do (timestamps (map start_time df)) (\<lambda>ss.
         let total_used_minutes = sum_list ds;
             num_bikes = length (unique (filter (\<lambda>c. c \<noteq> Missing) (map bike_id df)));
             window_minutes =
               (case (series_max es, series_min ss) of
                  (Some e, Some s) \<Rightarrow> Some (real_of_int (e - s) / 10 ^ 9 / 60)
                | _ \<Rightarrow> None)
         in if num_bikes = 0 then Inr (Some 0)
            else (case window_minutes of
                    None \<Rightarrow> Inr None
                  | Some w \<Rightarrow>
                      if w \<le> 0 then Inr (Some 0)
                      else then_do (py_div total_used_minutes (real num_bikes * w))
                             (\<lambda>q. Inr (Some q)))))))"

definition monthly_trip_trend :: "((int \<times> int) \<times> nat) list action" where
  "monthly_trip_trend =
     on_trips (\<lambda>df.
       then_do (dt (map start_time df)) (\<lambda>ts.
         let keyed = zip (map (map_option month_of) ts) (map trip_id df)
         in Inr (map (\<lambda>k. (k, length (filter (\<lambda>(p, i). p = Some k \<and> i \<noteq> Missing) keyed)))
                   (sort (unique (List.map_filter (\<lambda>x. x) (map fst keyed)))))))"

definition top_active_users :: "library \<Rightarrow> nat \<Rightarrow> ((cell \<times> cell) \<times> nat) list action" where
  "top_active_users cv n =
     on_trips (\<lambda>df.
       Inr (take n (sort_values_desc cv (groupby2_count user_id user_type trip_id df))))"

definition maintenance_cost_by_bike_type :: "(cell \<times> real) list action" where
  "maintenance_cost_by_bike_type =
     on_maint (\<lambda>m.
       then_do (numbers (map cost m)) (\<lambda>_.
         Inr (map (\<lambda>k. (k, np_round 2
                             (sum_list (floats (map cost (filter (\<lambda>q. m_bike_type q = k) m))))))
                (groupby_keys (map m_bike_type m)))))"

text \<open>The rows of \<^verbatim>\<open>top_routes\<close>: (start id, end id, count, start name, end name).\<close>

definition top_routes ::
  "library \<Rightarrow> nat \<Rightarrow> (cell \<times> cell \<times> nat \<times> cell \<times> cell) list action" where
  "top_routes cv n =
     on_trips_stations (\<lambda>df st.
       let routes = take n (sort_values_desc cv
                              (groupby2_count start_station_id end_station_id trip_id df));
           routes = concat (map (\<lambda>((a, b), c). map (\<lambda>name. (a, b, c, name)) (merge_station_name st a))
                              routes);
           routes = concat (map (\<lambda>(a, b, c, an). map (\<lambda>name. (a, b, c, an, name))
                                                     (merge_station_name st b)) routes)
       in Inr routes)"

definition trip_completion_rate :: "library \<Rightarrow> (cell \<times> real) list action" where
  "trip_completion_rate cv =
     on_trips (\<lambda>df.
       let counts = value_counts cv (map status df); total = sum_list (map snd counts)
       in Inr (map (\<lambda>(k, c). (k, np_round 4 (real c / real total))) counts))"

definition avg_trips_per_user_by_type :: "(cell \<times> real) list action" where
  "avg_trips_per_user_by_type =
     on_trips (\<lambda>df.
       let user_counts = groupby2_count user_type user_id trip_id df
       in Inr (map (\<lambda>k. (k, np_round 3
                             (np_mean (map (\<lambda>(p, c). real c)
                                         (filter (\<lambda>(p, c). fst p = k) user_counts)))))
                 (groupby_keys (map (\<lambda>(p, c). fst p) user_counts))))"

definition bikes_highest_maintenance_frequency ::
  "library \<Rightarrow> nat \<Rightarrow> ((cell \<times> cell) \<times> nat) list action" where
  "bikes_highest_maintenance_frequency cv n =
     on_maint (\<lambda>m.
       Inr (take n (sort_values_desc cv (groupby2_count m_bike_id m_bike_type record_id m))))"

text \<open>\<^verbatim>\<open>detect_outliers_zscore\<close> on a column as \<^verbatim>\<open>to_numpy\<close> gives it: with a NaN in the
  array the mean and every z-score are NaN, and no comparison holds.\<close>

definition outlier_mask :: "real option list \<Rightarrow> real \<Rightarrow> bool list" where
  "outlier_mask xs threshold =
     (if None \<in> set xs then map (\<lambda>_. False) xs
      else detect_outliers_zscore (List.map_filter (\<lambda>x. x) xs) threshold)"

text \<open>The rows of \<^verbatim>\<open>outlier_trips\<close>: (\<^verbatim>\<open>trip_id\<close>, \<^verbatim>\<open>duration_minutes\<close>, \<^verbatim>\<open>distance_km\<close>,
  \<^verbatim>\<open>user_type\<close>, \<^verbatim>\<open>status\<close>, \<^verbatim>\<open>outlier_reason\<close>), sorted by reason ascending, then
  by duration descending with missing durations last.\<close>

definition outlier_trips ::
  "real \<Rightarrow> (cell \<times> real option \<times> real option \<times> cell \<times> cell \<times> string) list action" where
  "outlier_trips threshold =
     on_trips (\<lambda>df.
       then_do (to_numpy (map duration_minutes df)) (\<lambda>durs.
       then_do (to_numpy (map distance_km df)) (\<lambda>dists.
         let mask_dur = outlier_mask durs threshold;
             mask_dist = outlier_mask dists threshold;
             rows = zip df (zip durs (zip dists (zip mask_dur mask_dist)));
             out = map (\<lambda>(r, d, k, md, mk).
                          (trip_id r, d, k, user_type r, status r,
                           if md \<and> mk then ''duration+distance''
                           else if md then ''duration'' else ''distance''))
                     (filter (\<lambda>(r, d, k, md, mk). md \<or> mk) rows)
         in Inr (sort_key (\<lambda>(i, d, k, u, s, reason).
                             (reason, case d of None \<Rightarrow> (1::nat, 0) | Some x \<Rightarrow> (0, - x)))
                   out))))"

text \<open>\<^verbatim>\<open>revenue_by_user_type\<close>: the two segments in the order of the loop; a NaN in the
  columns of a segment makes its sum NaN.\<close>

definition segment_revenue :: "trip list \<Rightarrow> string \<Rightarrow> real \<Rightarrow> real \<Rightarrow> real \<Rightarrow> error + real option" where
  "segment_revenue df utype per_minute per_km unlock_fee =
     (let sub = filter (\<lambda>r. user_type r = Text utype) df
      in then_do (to_numpy (map duration_minutes sub)) (\<lambda>durs.
         then_do (to_numpy (map distance_km sub)) (\<lambda>dists.
           if None \<in> set durs \<or> None \<in> set dists then Inr None
           else (case calculate_fares (List.map_filter (\<lambda>x. x) durs) (List.map_filter (\<lambda>x. x) dists)
                        per_minute per_km unlock_fee of
                   None \<Rightarrow> Inl TypeError
                 | Some fares \<Rightarrow> Inr (Some (np_round 2 (sum_list fares)))))))"

definition revenue_by_user_type :: "(string \<times> real option) list action" where
  "revenue_by_user_type =
     on_trips (\<lambda>df.
       then_do (segment_revenue df ''casual'' CasualPricing_PER_MINUTE CasualPricing_PER_KM
                  CasualPricing_UNLOCK_FEE) (\<lambda>casual.
       then_do (segment_revenue df ''member'' MemberPricing_PER_MINUTE MemberPricing_PER_KM 0) (\<lambda>member.
         Inr [(''casual'', casual), (''member'', member)])))"

section \<open>Closed forms of the cleaning blocks\<close>

text \<open>
  The notions of this section are not in the source: they name what the statements of
  \<^verbatim>\<open>clean_data\<close> compute for one row, and are proved equal to the embedding above
  (lemmas \<open>clean_trips_closed\<close>, \<open>clean_stations_closed\<close>, \<open>clean_maintenance_closed\<close>).
\<close>

text \<open>The value that fills a missing trip status: the first mode, or \<^verbatim>\<open>completed\<close>.\<close>

definition status_fill :: "library \<Rightarrow> trip list \<Rightarrow> string" where
  "status_fill cv df =
     (case mode (map (\<lambda>r. if isin (normalize_text cv (status r)) [''nan'', ''none'', []] then Missing
                              else normalize_text cv (status r)) df)
      of [] \<Rightarrow> ''completed'' | m # _ \<Rightarrow> m)"

text \<open>A trip row after coercion, normalisation and imputation, within the frame \<open>df\<close>.\<close>

definition trip_prepared :: "library \<Rightarrow> trip list \<Rightarrow> trip \<Rightarrow> trip" where
  "trip_prepared cv df r =
     r\<lparr>start_time := to_datetime cv (map start_time df) (start_time r),
       end_time := to_datetime cv (map end_time df) (end_time r),
       user_type := normalize_text cv (user_type r),
       bike_type := normalize_text cv (bike_type r),
       status :=
         fillna (Some (Text (status_fill cv df)))
           (if isin (normalize_text cv (status r)) [''nan'', ''none'', []] then Missing
            else normalize_text cv (status r)),
       duration_minutes :=
         fillna (map_option Float (median (map (\<lambda>q. to_numeric cv (duration_minutes q)) df)))
           (to_numeric cv (duration_minutes r)),
       distance_km :=
         fillna (map_option Float (median (map (\<lambda>q. to_numeric cv (distance_km q)) df)))
           (to_numeric cv (distance_km r))\<rparr>"

text \<open>The row filters of the trips block, together.\<close>

definition trip_valid :: "trip \<Rightarrow> bool" where
  "trip_valid r =
     (start_time r \<noteq> Missing \<and> end_time r \<noteq> Missing
      \<and> time_ge (end_time r) (start_time r)
      \<and> num_ge (duration_minutes r) 0 \<and> num_ge (distance_km r) 0
      \<and> isin (user_type r) [''casual'', ''member'']
      \<and> isin (bike_type r) [''classic'', ''electric'']
      \<and> isin (status r) [''completed'', ''cancelled''])"

text \<open>The recomputation of the duration from the two timestamps.\<close>

definition trip_finished :: "trip \<Rightarrow> trip" where
  "trip_finished r =
     r\<lparr>duration_minutes := clip_lower 0 (minutes_between (start_time r) (end_time r))\<rparr>"

definition station_converted :: "library \<Rightarrow> station \<Rightarrow> station" where
  "station_converted cv r =
     r\<lparr>capacity := to_Int64 (to_numeric cv (capacity r)),
       latitude := to_numeric cv (latitude r),
       longitude := to_numeric cv (longitude r)\<rparr>"

definition station_valid :: "station \<Rightarrow> bool" where
  "station_valid r =
     (station_id r \<noteq> Missing \<and> station_name r \<noteq> Missing \<and> capacity r \<noteq> Missing
      \<and> latitude r \<noteq> Missing \<and> longitude r \<noteq> Missing
      \<and> num_gt (capacity r) 0
      \<and> between (latitude r) (- 90) 90 \<and> between (longitude r) (- 180) 180)"

definition maintenance_converted ::
  "library \<Rightarrow> maintenance_record list \<Rightarrow> maintenance_record \<Rightarrow> maintenance_record" where
  "maintenance_converted cv df r =
     r\<lparr>date := to_datetime cv (map date df) (date r),
       cost := to_numeric cv (cost r),
       m_bike_type := normalize_text cv (m_bike_type r),
       maintenance_type := normalize_text cv (maintenance_type r)\<rparr>"

definition maintenance_valid :: "maintenance_record \<Rightarrow> bool" where
  "maintenance_valid r =
     (record_id r \<noteq> Missing \<and> m_bike_id r \<noteq> Missing \<and> m_bike_type r \<noteq> Missing
      \<and> date r \<noteq> Missing \<and> maintenance_type r \<noteq> Missing
      \<and> isin (m_bike_type r) [''classic'', ''electric''])"

text \<open>The maintenance frame as it stands before the costs are imputed.\<close>

definition maintenance_kept :: "library \<Rightarrow> maintenance_record list \<Rightarrow> maintenance_record list" where
  "maintenance_kept cv raw =
     (let df = drop_duplicates record_id raw
      in filter maintenance_valid (map (maintenance_converted cv df) df))"

text \<open>The costs of the rows of \<open>df\<close> that have the bike type \<open>t\<close>.\<close>

definition group_costs :: "maintenance_record list \<Rightarrow> cell \<Rightarrow> cell list" where
  "group_costs df t = map cost (filter (\<lambda>q. m_bike_type q = t) df)"

definition cost_imputed :: "maintenance_record list \<Rightarrow> maintenance_record \<Rightarrow> maintenance_record" where
  "cost_imputed df r =
     r\<lparr>cost := fillna (map_option Float (median (map cost df)))
                 (fillna (map_option Float (median (group_costs df (m_bike_type r)))) (cost r))\<rparr>"

text \<open>
  The imputation of a maintenance cost as the specification words it: a cost that is not
  missing is kept; a missing cost becomes the median of the non-missing costs of the rows
  of the same bike type; when that group has no non-missing cost, it becomes the median of
  all non-missing costs of the frame (and stays missing when the frame has none).
\<close>

definition impute_cost_spec :: "maintenance_record list \<Rightarrow> maintenance_record \<Rightarrow> cell" where
  "impute_cost_spec df r =
     (case cost r of
        Missing \<Rightarrow>
          (case median_of (floats (map cost (filter (\<lambda>q. m_bike_type q = m_bike_type r) df))) of
             Some m \<Rightarrow> Float m
           | None \<Rightarrow> (case median_of (floats (map cost df)) of Some m \<Rightarrow> Float m | None \<Rightarrow> Missing))
      | c \<Rightarrow> c)"

section \<open>A sample run\<close>

text \<open>Sample parsers and sample raw frames, used to instantiate the theorems below on a
  concrete input. The texts the sample parsers know are listed; any other text does not
  parse.\<close>

text \<open>Two descending sorts, as positions: one leaves rows of equal count in the order
  they had; the other sorts ascending and reverses, so that rows of equal count come in
  the reverse of the order they had.\<close>

definition stable_order :: "nat list \<Rightarrow> nat list" where
  "stable_order cs = map snd (sort_key (\<lambda>(c, i). - int c) (zip cs [0..<length cs]))"


definition sample_conv :: library where
  "sample_conv =
     \<lparr>parse_datetime =
        (\<lambda>col c. case c of
           Text s \<Rightarrow> map_of [(''2024-01-01 08:00:00'', 1704096000000000000),
                              (''2024-01-01 08:30:00'', 1704097800000000000),
                              (''2024-01-01 09:00:00'', 1704099600000000000)] s
         | Integer n \<Rightarrow> Some n
         | _ \<Rightarrow> None),
      parse_float = map_of [(''30'', 30), (''5.2'', 52 / 10), (''12'', 12), (''-1'', - 1)],
      str_of = (\<lambda>c. ''0''),
      value_counts_order = (\<lambda>vals. stable_order (map snd (counts_first_seen vals))),
      sort_values_order = stable_order\<rparr>"


definition sample_trip :: trip where
  "sample_trip =
     \<lparr>trip_id = Integer 1, user_id = Text ''U1'', user_type = Text '' Casual'',
      bike_id = Text ''B1'', bike_type = Text ''CLASSIC '',
      start_station_id = Text ''A'', end_station_id = Text ''B'',
      start_time = Text ''2024-01-01 08:00:00'', end_time = Text ''2024-01-01 08:30:00'',
      duration_minutes = Float 999, distance_km = Text ''5.2'', status = Missing\<rparr>"

definition sample_trips :: "trip list" where
  "sample_trips =
     [sample_trip,
      sample_trip\<lparr>trip_id := Integer 2, status := Text ''Completed'', end_time := Text ''bad''\<rparr>,
      sample_trip\<lparr>trip_id := Integer 1, user_id := Text ''U9''\<rparr>,
      sample_trip\<lparr>trip_id := Integer 4, user_id := Text ''U2'', user_type := Text ''member'',
                   end_time := Text ''2024-01-01 09:00:00'', distance_km := Missing,
                   status := Text ''cancelled''\<rparr>]"

definition sample_station :: station where
  "sample_station =
     \<lparr>station_id = Text ''A'', station_name = Text ''Central'', capacity = Text ''12'',
      latitude = Float (525 / 10), longitude = Float (134 / 10)\<rparr>"

definition sample_stations :: "station list" where
  "sample_stations =
     [sample_station,
      sample_station\<lparr>station_id := Text ''B'', station_name := Missing\<rparr>,
      sample_station\<lparr>station_name := Text ''Duplicate''\<rparr>,
      sample_station\<lparr>station_id := Text ''C'', capacity := Integer 0\<rparr>,
      sample_station\<lparr>station_id := Text ''D'', latitude := Float 95\<rparr>]"

definition sample_record :: maintenance_record where
  "sample_record =
     \<lparr>record_id = Integer 1, m_bike_id = Text ''B1'', m_bike_type = Text ''Classic'',
      date = Text ''2024-01-01 08:00:00'', maintenance_type = Text ''Tire_Repair'',
      cost = Text ''30''\<rparr>"

definition sample_maintenance :: "maintenance_record list" where
  "sample_maintenance =
     [sample_record,
      sample_record\<lparr>record_id := Integer 2, m_bike_id := Text ''B2'', cost := Missing\<rparr>,
      sample_record\<lparr>record_id := Integer 3, m_bike_id := Text ''B3'',
                    m_bike_type := Text ''electric'', cost := Missing\<rparr>,
      sample_record\<lparr>m_bike_id := Text ''B4''\<rparr>,
      sample_record\<lparr>record_id := Integer 5, cost := Text ''12''\<rparr>]"

definition sample_system :: BikeShareSystem where
  "sample_system =
     \<lparr>trips = Some sample_trips, stations = Some sample_stations,
      maintenance = Some sample_maintenance\<rparr>"


text \<open>The state the sample run leaves (lemma \<open>sample_run\<close>).\<close>

definition sample_cleaned :: BikeShareSystem where
  "sample_cleaned =
     \<lparr>trips = Some
        [\<lparr>trip_id = Integer 1, user_id = Text ''U1'', user_type = Text ''casual'',
          bike_id = Text ''B1'', bike_type = Text ''classic'',
          start_station_id = Text ''A'', end_station_id = Text ''B'',
          start_time = Timestamp 1704096000000000000, end_time = Timestamp 1704097800000000000,
          duration_minutes = Float 30, distance_km = Float (26 / 5), status = Text ''cancelled''\<rparr>,
         \<lparr>trip_id = Integer 4, user_id = Text ''U2'', user_type = Text ''member'',
          bike_id = Text ''B1'', bike_type = Text ''classic'',
          start_station_id = Text ''A'', end_station_id = Text ''B'',
          start_time = Timestamp 1704096000000000000, end_time = Timestamp 1704099600000000000,
          duration_minutes = Float 60, distance_km = Float (26 / 5), status = Text ''cancelled''\<rparr>],
      stations = Some
        [\<lparr>station_id = Text ''A'', station_name = Text ''Central'', capacity = Integer 12,
          latitude = Float (105 / 2), longitude = Float (67 / 5)\<rparr>],
      maintenance = Some
        [\<lparr>record_id = Integer 1, m_bike_id = Text ''B1'', m_bike_type = Text ''classic'',
          date = Timestamp 1704096000000000000, maintenance_type = Text ''tire_repair'',
          cost = Float 30\<rparr>,
         \<lparr>record_id = Integer 2, m_bike_id = Text ''B2'', m_bike_type = Text ''classic'',
          date = Timestamp 1704096000000000000, maintenance_type = Text ''tire_repair'',
          cost = Float 21\<rparr>,
         \<lparr>record_id = Integer 3, m_bike_id = Text ''B3'', m_bike_type = Text ''electric'',
          date = Timestamp 1704096000000000000, maintenance_type = Text ''tire_repair'',
          cost = Float 21\<rparr>,
         \<lparr>record_id = Integer 5, m_bike_id = Text ''B1'', m_bike_type = Text ''classic'',
          date = Timestamp 1704096000000000000, maintenance_type = Text ''tire_repair'',
          cost = Float 12\<rparr>]\<rparr>"

subsection \<open>The queries, listed\<close>

text \<open>\<^verbatim>\<open>__init__\<close>: no frame is loaded.\<close>

definition init_system :: BikeShareSystem where
  "init_system = \<lparr>trips = None, stations = None, maintenance = None\<rparr>"

text \<open>What a call leaves when its result is forgotten: the error it raised, if any, and
  the state. It lets queries of different result types stand in one list.\<close>

definition outcome :: "'a action \<Rightarrow> BikeShareSystem \<Rightarrow> error option \<times> BikeShareSystem" where
  "outcome q self = (case q self of (Inl e, s) \<Rightarrow> (Some e, s) | (Inr v, s) \<Rightarrow> (None, s))"

text \<open>The fourteen queries that read the trips frame (three of them read the stations
  frame next), and the two that read the maintenance frame.\<close>

definition trips_queries ::
  "library \<Rightarrow> nat \<Rightarrow> real \<Rightarrow> (BikeShareSystem \<Rightarrow> error option \<times> BikeShareSystem) list" where
  "trips_queries cv n threshold =
     [outcome total_trips_summary, outcome (top_start_stations cv n),
      outcome (top_end_stations cv n), outcome (peak_usage_hours cv),
      outcome (busiest_day_of_week cv), outcome avg_distance_by_user_type,
      outcome bike_utilization_rate, outcome monthly_trip_trend, outcome (top_active_users cv n),
      outcome (top_routes cv n), outcome (trip_completion_rate cv),
      outcome avg_trips_per_user_by_type, outcome (outlier_trips threshold),
      outcome revenue_by_user_type]"

definition stations_queries ::
  "library \<Rightarrow> nat \<Rightarrow> (BikeShareSystem \<Rightarrow> error option \<times> BikeShareSystem) list" where
  "stations_queries cv n =
     [outcome (top_start_stations cv n), outcome (top_end_stations cv n),
      outcome (top_routes cv n)]"

definition maintenance_queries ::
  "library \<Rightarrow> nat \<Rightarrow> (BikeShareSystem \<Rightarrow> error option \<times> BikeShareSystem) list" where
  "maintenance_queries cv n =
     [outcome maintenance_cost_by_bike_type,
      outcome (bikes_highest_maintenance_frequency cv n)]"

text \<open>A state as \<^verbatim>\<open>load_data\<close> leaves it when the files hold well-formed numbers:
  \<^verbatim>\<open>pd.read_csv\<close> has parsed the numeric columns, the rest is raw text, and
  \<^verbatim>\<open>clean_data\<close> has not run.\<close>

definition sample_loaded :: BikeShareSystem where
  "sample_loaded =
     \<lparr>trips = Some [sample_trip\<lparr>duration_minutes := Float 30, distance_km := Float (52 / 10)\<rparr>],
      stations = Some sample_stations, maintenance = Some sample_maintenance\<rparr>"

subsection \<open>Ranking: sample frames\<close>







section \<open>Properties\<close>

subsection \<open>Pricing\<close>

text \<open>
  C3. On (duration 10, distance 2) \<^verbatim>\<open>CasualPricing.calculate_cost\<close> is
  1.00 + 0.15 * 10 + 0.10 * 2 = 2.70 and \<^verbatim>\<open>MemberPricing.calculate_cost\<close> is
  0.08 * 10 + 0.05 * 2 = 0.90; on every pair \<^verbatim>\<open>PeakHourPricing.calculate_cost\<close> is 1.5
  times the casual cost of that pair.
\<close>

theorem pricing_examples_and_peak_multiplier:
  "calculate_cost CasualPricing 10 2 = 1.00 + 0.15 * 10 + 0.10 * 2
   \<and> calculate_cost CasualPricing 10 2 = 2.70
   \<and> calculate_cost MemberPricing 10 2 = 0.08 * 10 + 0.05 * 2
   \<and> calculate_cost MemberPricing 10 2 = 0.90
   \<and> (\<forall>d k. calculate_cost PeakHourPricing d k = 1.5 * calculate_cost CasualPricing d k)"
  by (simp add: CasualPricing_calculate_cost_def MemberPricing_calculate_cost_def
      PeakHourPricing_calculate_cost_def CasualPricing_UNLOCK_FEE_def
      CasualPricing_PER_MINUTE_def CasualPricing_PER_KM_def MemberPricing_PER_MINUTE_def
      MemberPricing_PER_KM_def PeakHourPricing_MULTIPLIER_def)

subsection \<open>Z-score outlier mask\<close>














subsection \<open>The cleaning blocks in closed form\<close>

lemma clean_trips_closed:
  "clean_trips cv raw =
     (let df = drop_duplicates trip_id raw
      in map trip_finished (filter trip_valid (map (trip_prepared cv df) df)))"
  unfolding clean_trips_def Let_def
  by (simp add: assign_column_def Let_def comp_def trip_finished_def [abs_def]
      trip_prepared_def [abs_def] trip_valid_def [abs_def] status_fill_def cong: if_cong)

lemma clean_stations_closed:
  "clean_stations cv raw =
     (let df = drop_duplicates station_id raw
      in if \<not> list_all (\<lambda>r. Int64_castable (to_numeric cv (capacity r))) df then Inl TypeError
         else Inr (filter station_valid (map (station_converted cv) df)))"
  unfolding clean_stations_def Let_def
  by (simp add: assign_column_def Let_def comp_def station_converted_def [abs_def]
      station_valid_def [abs_def] list_all_iff conj_commute conj_left_commute)

lemma clean_maintenance_closed:
  "clean_maintenance cv raw = (let df = maintenance_kept cv raw in map (cost_imputed df) df)"
  unfolding clean_maintenance_def maintenance_kept_def Let_def
  by (simp add: assign_column_def Let_def comp_def maintenance_converted_def [abs_def]
      maintenance_valid_def [abs_def] cost_imputed_def [abs_def] group_costs_def)

subsection \<open>Dropping duplicates\<close>

lemma drop_duplicates_from_subset: "set (drop_duplicates_from seen key rs) \<subseteq> set rs"
  by (induction rs arbitrary: seen) auto

lemma drop_duplicates_from_keys:
  "key ` set (drop_duplicates_from seen key rs) = key ` set rs - set seen"
  by (induction rs arbitrary: seen) auto

lemma drop_duplicates_from_distinct: "distinct (map key (drop_duplicates_from seen key rs))"
  by (induction rs arbitrary: seen) (auto simp: drop_duplicates_from_keys)

lemma drop_duplicates_from_length: "length (drop_duplicates_from seen key rs) \<le> length rs"
  by (induction rs arbitrary: seen) (auto intro: le_SucI)

lemma drop_duplicates_from_find:
  "k \<notin> set seen \<Longrightarrow>
     find (\<lambda>r. key r = k) (drop_duplicates_from seen key rs) = find (\<lambda>r. key r = k) rs"
  by (induction rs arbitrary: seen) auto

lemma drop_duplicates_from_id:
  "distinct (map key rs) \<Longrightarrow> key ` set rs \<inter> set seen = {} \<Longrightarrow>
     drop_duplicates_from seen key rs = rs"
  by (induction rs arbitrary: seen) auto

lemma drop_duplicates_subset: "set (drop_duplicates key rs) \<subseteq> set rs"
  by (simp add: drop_duplicates_def drop_duplicates_from_subset)

lemma drop_duplicates_distinct: "distinct (map key (drop_duplicates key rs))"
  by (simp add: drop_duplicates_def drop_duplicates_from_distinct)

lemma drop_duplicates_length: "length (drop_duplicates key rs) \<le> length rs"
  by (simp add: drop_duplicates_def drop_duplicates_from_length)

lemma drop_duplicates_find:
  "find (\<lambda>r. key r = k) (drop_duplicates key rs) = find (\<lambda>r. key r = k) rs"
  by (simp add: drop_duplicates_def drop_duplicates_from_find)

lemma drop_duplicates_id: "distinct (map key rs) \<Longrightarrow> drop_duplicates key rs = rs"
  by (simp add: drop_duplicates_def drop_duplicates_from_id)

text \<open>A row kept by \<open>drop_duplicates\<close> is the first row of the frame with its key.\<close>

lemma find_distinct_key:
  "distinct (map key rs) \<Longrightarrow> r \<in> set rs \<Longrightarrow> find (\<lambda>q. key q = key r) rs = Some r"
  by (induction rs) (auto simp: image_iff)

lemma drop_duplicates_first:
  assumes "r \<in> set (drop_duplicates key rs)"
  shows "find (\<lambda>q. key q = key r) rs = Some r"
  using find_distinct_key [OF drop_duplicates_distinct assms] drop_duplicates_find [of key "key r" rs]
  by simp

subsection \<open>Cleaned trips\<close>

lemma to_numeric_cases: "to_numeric cv c = Missing \<or> (\<exists>x. to_numeric cv c = Float x)"
  by (auto simp: to_numeric_def split: cell.splits option.splits)

lemma to_datetime_cases: "to_datetime cv col c = Missing \<or> (\<exists>t. to_datetime cv col c = Timestamp t)"
  by (auto simp: to_datetime_def split: cell.splits option.splits)

lemma fillna_float_cases:
  "c = Missing \<or> (\<exists>x. c = Float x) \<Longrightarrow>
     fillna (map_option Float m) c = Missing \<or> (\<exists>x. fillna (map_option Float m) c = Float x)"
  by (cases m) (auto simp: fillna_def)

lemma num_ge_float_cases:
  "c = Missing \<or> (\<exists>x. c = Float x) \<Longrightarrow> num_ge c b \<Longrightarrow> \<exists>x. c = Float x \<and> b \<le> x"
  by (auto simp: num_ge_def)

lemma time_ge_cases:
  "time_ge a b \<Longrightarrow> \<exists>x y. a = Timestamp x \<and> b = Timestamp y \<and> y \<le> x"
  by (auto simp: time_ge_def split: cell.splits)

lemma trip_prepared_distance:
  "distance_km (trip_prepared cv df r) = Missing \<or> (\<exists>x. distance_km (trip_prepared cv df r) = Float x)"
  using fillna_float_cases [OF to_numeric_cases] by (simp add: trip_prepared_def)

text \<open>What holds of every row of the cleaned trips frame.\<close>

lemma clean_trips_row:
  assumes "r \<in> set (clean_trips cv raw)"
  shows "\<exists>s e k. start_time r = Timestamp s \<and> end_time r = Timestamp e \<and> s \<le> e
           \<and> duration_minutes r = Float (max (real_of_int (e - s) / 10 ^ 9 / 60) 0)
           \<and> distance_km r = Float k \<and> 0 \<le> k
           \<and> isin (user_type r) [''casual'', ''member'']
           \<and> isin (bike_type r) [''classic'', ''electric'']
           \<and> isin (status r) [''completed'', ''cancelled'']"
proof -
  define df where "df = drop_duplicates trip_id raw"
  from assms obtain q p where p: "p \<in> set df" and q: "q = trip_prepared cv df p"
    and v: "trip_valid q" and r: "r = trip_finished q"
    by (auto simp: clean_trips_closed Let_def df_def)
  from v obtain s e where se: "start_time q = Timestamp s" "end_time q = Timestamp e" "s \<le> e"
    using time_ge_cases [of "end_time q" "start_time q"] by (auto simp: trip_valid_def)
  from v q obtain k where k: "distance_km q = Float k" "0 \<le> k"
    using num_ge_float_cases [OF trip_prepared_distance, of cv df p 0] by (auto simp: trip_valid_def)
  from v have cats: "isin (user_type q) [''casual'', ''member'']"
    "isin (bike_type q) [''classic'', ''electric'']" "isin (status q) [''completed'', ''cancelled'']"
    by (simp_all add: trip_valid_def)
  show ?thesis
    using se k cats unfolding r
    by (simp add: trip_finished_def minutes_between_def clip_lower_def)
qed

subsection \<open>The method \<open>clean_data\<close>\<close>

lemma sample_run: "clean_data sample_conv sample_system = (Inr (), sample_cleaned)"
  by code_simp

lemma clean_data_Inr:
  assumes "clean_data cv self = (Inr (), self')"
  obtains t s m s' where "trips self = Some t" "stations self = Some s"
    "maintenance self = Some m" "clean_stations cv s = Inr s'"
    "self' = self\<lparr>trips := Some (clean_trips cv t), stations := Some s',
                    maintenance := Some (clean_maintenance cv m)\<rparr>"
  using assms by (auto simp: clean_data_def split: option.splits sum.splits)

lemma isin_pair: "isin c [a, b] \<Longrightarrow> c = Text a \<or> c = Text b"
  by (auto simp: isin_def split: cell.splits)

text \<open>
  C1. After \<^verbatim>\<open>clean_data\<close>, every row of the trips frame has two timestamps with
  \<open>end_time \<ge> start_time\<close>, a distance \<open>\<ge> 0\<close>, a user type, bike type and status of the
  enumerated sets, and a duration that is the difference of the timestamps in minutes
  clipped at 0 (so \<open>\<ge> 0\<close>), whatever the raw duration was.
\<close>

theorem cleaned_trips_invariants:
  assumes "clean_data cv self = (Inr (), self')"
  shows "\<exists>df. trips self' = Some df
           \<and> (\<forall>r\<in>set df. \<exists>s e d k.
                 start_time r = Timestamp s \<and> end_time r = Timestamp e \<and> s \<le> e
                 \<and> duration_minutes r = Float d
                 \<and> d = max (real_of_int (e - s) / 10 ^ 9 / 60) 0 \<and> 0 \<le> d
                 \<and> distance_km r = Float k \<and> 0 \<le> k
                 \<and> (user_type r = Text ''casual'' \<or> user_type r = Text ''member'')
                 \<and> (bike_type r = Text ''classic'' \<or> bike_type r = Text ''electric'')
                 \<and> (status r = Text ''completed'' \<or> status r = Text ''cancelled''))"
proof -
  from assms obtain t where t: "trips self' = Some (clean_trips cv t)"
    by (elim clean_data_Inr) simp
  have "\<exists>s e d k.
          start_time r = Timestamp s \<and> end_time r = Timestamp e \<and> s \<le> e
          \<and> duration_minutes r = Float d
          \<and> d = max (real_of_int (e - s) / 10 ^ 9 / 60) 0 \<and> 0 \<le> d
          \<and> distance_km r = Float k \<and> 0 \<le> k
          \<and> (user_type r = Text ''casual'' \<or> user_type r = Text ''member'')
          \<and> (bike_type r = Text ''classic'' \<or> bike_type r = Text ''electric'')
          \<and> (status r = Text ''completed'' \<or> status r = Text ''cancelled'')"
    if "r \<in> set (clean_trips cv t)" for r
    using clean_trips_row [OF that] by (auto dest!: isin_pair)
  with t show ?thesis by blast
qed

theorem cleaned_trips_invariants_witness:
  "clean_data sample_conv sample_system = (Inr (), sample_cleaned)
   \<and> (\<exists>df. trips sample_cleaned = Some df \<and> length df = 2
         \<and> (\<forall>r\<in>set df. \<exists>s e d k.
               start_time r = Timestamp s \<and> end_time r = Timestamp e \<and> s \<le> e
               \<and> duration_minutes r = Float d
               \<and> d = max (real_of_int (e - s) / 10 ^ 9 / 60) 0 \<and> 0 \<le> d
               \<and> distance_km r = Float k \<and> 0 \<le> k
               \<and> (user_type r = Text ''casual'' \<or> user_type r = Text ''member'')
               \<and> (bike_type r = Text ''classic'' \<or> bike_type r = Text ''electric'')
               \<and> (status r = Text ''completed'' \<or> status r = Text ''cancelled'')))"
proof -
  have len: "\<And>df. trips sample_cleaned = Some df \<Longrightarrow> length df = 2"
    by (auto simp: sample_cleaned_def)
  show ?thesis
    using cleaned_trips_invariants [OF sample_run] sample_run len by blast
qed

subsection \<open>Cleaned stations\<close>

lemma to_Int64_cases: "to_Int64 c = Missing \<or> (\<exists>n. to_Int64 c = Integer n)"
  by (auto simp: to_Int64_def split: cell.splits)

lemma num_gt_Integer: "num_gt (Integer n) 0 = (0 < n)"
  by (simp add: num_gt_def)

lemma between_float_cases:
  "c = Missing \<or> (\<exists>x. c = Float x) \<Longrightarrow> between c lo hi \<Longrightarrow> \<exists>x. c = Float x \<and> lo \<le> x \<and> x \<le> hi"
  by (auto simp: between_def)

lemma clean_stations_row:
  assumes "clean_stations cv raw = Inr df" and "r \<in> set df"
  shows "\<exists>p\<in>set (drop_duplicates station_id raw).
           station_id r = station_id p \<and> station_name r = station_name p
           \<and> station_id r \<noteq> Missing \<and> station_name r \<noteq> Missing
           \<and> (\<exists>n. capacity r = Integer n \<and> 0 < n \<and> int64_range n)
           \<and> (\<exists>x. latitude r = Float x \<and> - 90 \<le> x \<and> x \<le> 90)
           \<and> (\<exists>y. longitude r = Float y \<and> - 180 \<le> y \<and> y \<le> 180)"
proof -
  define dd where "dd = drop_duplicates station_id raw"
  from assms obtain p where p: "p \<in> set dd" and r: "r = station_converted cv p"
    and v: "station_valid r"
    by (auto simp: clean_stations_closed Let_def dd_def split: if_splits)
  from assms p have castable: "Int64_castable (to_numeric cv (capacity p))"
    by (auto simp: clean_stations_closed Let_def dd_def list_all_iff split: if_splits)
  have cap: "\<exists>n. capacity r = Integer n \<and> 0 < n \<and> int64_range n"
    using v castable to_numeric_cases [of cv "capacity p"]
    by (auto simp: r station_converted_def station_valid_def num_gt_Integer
        Int64_castable_def to_Int64_def)
  have lat: "\<exists>x. latitude r = Float x \<and> - 90 \<le> x \<and> x \<le> 90"
    using v between_float_cases [OF to_numeric_cases, of cv "latitude p" "- 90" 90]
    by (simp add: r station_converted_def station_valid_def)
  have lon: "\<exists>y. longitude r = Float y \<and> - 180 \<le> y \<and> y \<le> 180"
    using v between_float_cases [OF to_numeric_cases, of cv "longitude p" "- 180" 180]
    by (simp add: r station_converted_def station_valid_def)
  have "station_id r = station_id p" "station_name r = station_name p"
    by (simp_all add: r station_converted_def)
  moreover from v have "station_id r \<noteq> Missing" "station_name r \<noteq> Missing"
    by (simp_all add: station_valid_def)
  ultimately show ?thesis using p cap lat lon unfolding dd_def by blast
qed

lemma clean_data_stations:
  assumes "clean_data cv self = (Inr (), self')" and "stations self = Some raw"
  shows "\<exists>df. clean_stations cv raw = Inr df \<and> stations self' = Some df"
  using assms by (auto simp: clean_data_def split: option.splits sum.splits)

lemma clean_data_trips:
  assumes "clean_data cv self = (Inr (), self')" and "trips self = Some raw"
  shows "trips self' = Some (clean_trips cv raw)"
  using assms by (auto simp: clean_data_def split: option.splits sum.splits)

lemma clean_data_maintenance:
  assumes "clean_data cv self = (Inr (), self')" and "maintenance self = Some raw"
  shows "maintenance self' = Some (clean_maintenance cv raw)"
  using assms by (auto simp: clean_data_def split: option.splits sum.splits)




subsection \<open>Cleaning creates no rows\<close>

text \<open>Each block is: drop the duplicates, select rows, rewrite each selected row without
  touching its key.\<close>

lemma cleaned_keys:
  assumes c: "cleaned = map f (filter Q (drop_duplicates key raw))"
    and k: "\<And>p. key (f p) = key p"
  shows "distinct (map key cleaned)"
    and "set (map key cleaned) \<subseteq> set (map key raw)"
    and "length cleaned \<le> length raw"
    and "\<forall>c\<in>set cleaned. \<exists>p. find (\<lambda>q. key q = key c) raw = Some p \<and> c = f p"
proof -
  have m: "map key cleaned = map key (filter Q (drop_duplicates key raw))"
    by (simp add: c k comp_def)
  show "distinct (map key cleaned)"
    unfolding m by (rule distinct_map_filter) (rule drop_duplicates_distinct)
  show "set (map key cleaned) \<subseteq> set (map key raw)"
    unfolding m using drop_duplicates_subset [of key raw] by auto
  have "length cleaned \<le> length (drop_duplicates key raw)"
    by (simp add: c)
  then show "length cleaned \<le> length raw"
    using drop_duplicates_length [of key raw] by (rule order_trans)
  show "\<forall>c\<in>set cleaned. \<exists>p. find (\<lambda>q. key q = key c) raw = Some p \<and> c = f p"
  proof
    fix x
    assume "x \<in> set cleaned"
    then obtain p where p: "p \<in> set (drop_duplicates key raw)" and x: "x = f p"
      by (auto simp: c)
    from drop_duplicates_first [OF p] have "find (\<lambda>q. key q = key x) raw = Some p"
      by (simp add: x k)
    with x show "\<exists>p. find (\<lambda>q. key q = key x) raw = Some p \<and> x = f p"
      by (intro exI conjI)
  qed
qed

lemma clean_trips_shape:
  "clean_trips cv raw =
     map (\<lambda>p. trip_finished (trip_prepared cv (drop_duplicates trip_id raw) p))
       (filter (\<lambda>p. trip_valid (trip_prepared cv (drop_duplicates trip_id raw) p))
          (drop_duplicates trip_id raw))"
  by (simp add: clean_trips_closed Let_def filter_map comp_def)

lemma clean_stations_shape:
  "clean_stations cv raw = Inr df \<Longrightarrow>
     df = map (station_converted cv)
            (filter (\<lambda>p. station_valid (station_converted cv p)) (drop_duplicates station_id raw))"
  by (simp add: clean_stations_closed Let_def filter_map comp_def split: if_splits)

lemma clean_maintenance_shape:
  "clean_maintenance cv raw =
     map (\<lambda>p. cost_imputed (maintenance_kept cv raw)
                 (maintenance_converted cv (drop_duplicates record_id raw) p))
       (filter (\<lambda>p. maintenance_valid (maintenance_converted cv (drop_duplicates record_id raw) p))
          (drop_duplicates record_id raw))"
  by (simp add: clean_maintenance_closed maintenance_kept_def Let_def filter_map comp_def)

lemma trip_untouched:
  "trip_id (trip_finished (trip_prepared cv df p)) = trip_id p"
  "user_id (trip_finished (trip_prepared cv df p)) = user_id p"
  "bike_id (trip_finished (trip_prepared cv df p)) = bike_id p"
  "start_station_id (trip_finished (trip_prepared cv df p)) = start_station_id p"
  "end_station_id (trip_finished (trip_prepared cv df p)) = end_station_id p"
  by (simp_all add: trip_finished_def trip_prepared_def)

lemma station_untouched:
  "station_id (station_converted cv p) = station_id p"
  "station_name (station_converted cv p) = station_name p"
  by (simp_all add: station_converted_def)

lemma record_untouched:
  "record_id (cost_imputed df (maintenance_converted cv dd p)) = record_id p"
  "m_bike_id (cost_imputed df (maintenance_converted cv dd p)) = m_bike_id p"
  by (simp_all add: cost_imputed_def maintenance_converted_def)

lemma clean_trips_keys:
  "distinct (map trip_id (clean_trips cv raw))"
  "set (map trip_id (clean_trips cv raw)) \<subseteq> set (map trip_id raw)"
  "length (clean_trips cv raw) \<le> length raw"
  "\<forall>c\<in>set (clean_trips cv raw). \<exists>p. find (\<lambda>q. trip_id q = trip_id c) raw = Some p
      \<and> user_id c = user_id p \<and> bike_id c = bike_id p
      \<and> start_station_id c = start_station_id p \<and> end_station_id c = end_station_id p"
proof -
  note k = cleaned_keys [OF clean_trips_shape [of cv raw], OF trip_untouched(1)]
  show "distinct (map trip_id (clean_trips cv raw))" by (rule k(1))
  show "set (map trip_id (clean_trips cv raw)) \<subseteq> set (map trip_id raw)" by (rule k(2))
  show "length (clean_trips cv raw) \<le> length raw" by (rule k(3))
  show "\<forall>c\<in>set (clean_trips cv raw). \<exists>p. find (\<lambda>q. trip_id q = trip_id c) raw = Some p
      \<and> user_id c = user_id p \<and> bike_id c = bike_id p
      \<and> start_station_id c = start_station_id p \<and> end_station_id c = end_station_id p"
  proof
    fix c assume c: "c \<in> set (clean_trips cv raw)"
    from bspec [OF k(4) c] obtain p where f: "find (\<lambda>q. trip_id q = trip_id c) raw = Some p"
      and e: "c = trip_finished (trip_prepared cv (drop_duplicates trip_id raw) p)"
      by (elim exE conjE)
    have "user_id c = user_id p" "bike_id c = bike_id p"
      "start_station_id c = start_station_id p" "end_station_id c = end_station_id p"
      by (simp_all only: e trip_untouched)
    with f show "\<exists>p. find (\<lambda>q. trip_id q = trip_id c) raw = Some p
      \<and> user_id c = user_id p \<and> bike_id c = bike_id p
      \<and> start_station_id c = start_station_id p \<and> end_station_id c = end_station_id p"
      by (intro exI [of _ p] conjI)
  qed
qed


lemma clean_stations_keys:
  assumes "clean_stations cv raw = Inr df"
  shows "distinct (map station_id df)"
    and "set (map station_id df) \<subseteq> set (map station_id raw)"
    and "length df \<le> length raw"
    and "\<forall>c\<in>set df. \<exists>p. find (\<lambda>q. station_id q = station_id c) raw = Some p
            \<and> station_name c = station_name p"
proof -
  note k = cleaned_keys [OF clean_stations_shape [OF assms], OF station_untouched(1)]
  show "distinct (map station_id df)" by (rule k(1))
  show "set (map station_id df) \<subseteq> set (map station_id raw)" by (rule k(2))
  show "length df \<le> length raw" by (rule k(3))
  show "\<forall>c\<in>set df. \<exists>p. find (\<lambda>q. station_id q = station_id c) raw = Some p
            \<and> station_name c = station_name p"
  proof
    fix c assume c: "c \<in> set df"
    from bspec [OF k(4) c] obtain p where f: "find (\<lambda>q. station_id q = station_id c) raw = Some p"
      and e: "c = station_converted cv p"
      by (elim exE conjE)
    have "station_name c = station_name p"
      by (simp only: e station_untouched)
    with f show "\<exists>p. find (\<lambda>q. station_id q = station_id c) raw = Some p
            \<and> station_name c = station_name p"
      by (intro exI [of _ p] conjI)
  qed
qed

lemma clean_maintenance_keys:
  "distinct (map record_id (clean_maintenance cv raw))"
  "set (map record_id (clean_maintenance cv raw)) \<subseteq> set (map record_id raw)"
  "length (clean_maintenance cv raw) \<le> length raw"
  "\<forall>c\<in>set (clean_maintenance cv raw). \<exists>p. find (\<lambda>q. record_id q = record_id c) raw = Some p
      \<and> m_bike_id c = m_bike_id p"
proof -
  note k = cleaned_keys [OF clean_maintenance_shape [of cv raw], OF record_untouched(1)]
  show "distinct (map record_id (clean_maintenance cv raw))" by (rule k(1))
  show "set (map record_id (clean_maintenance cv raw)) \<subseteq> set (map record_id raw)" by (rule k(2))
  show "length (clean_maintenance cv raw) \<le> length raw" by (rule k(3))
  show "\<forall>c\<in>set (clean_maintenance cv raw). \<exists>p. find (\<lambda>q. record_id q = record_id c) raw = Some p
      \<and> m_bike_id c = m_bike_id p"
  proof
    fix c assume c: "c \<in> set (clean_maintenance cv raw)"
    from bspec [OF k(4) c] obtain p where f: "find (\<lambda>q. record_id q = record_id c) raw = Some p"
      and e: "c = cost_imputed (maintenance_kept cv raw)
                    (maintenance_converted cv (drop_duplicates record_id raw) p)"
      by (elim exE conjE)
    have "m_bike_id c = m_bike_id p"
      by (simp only: e record_untouched)
    with f show "\<exists>p. find (\<lambda>q. record_id q = record_id c) raw = Some p \<and> m_bike_id c = m_bike_id p"
      by (intro exI [of _ p] conjI)
  qed
qed

text \<open>
  C10. Cleaning creates no record. After \<^verbatim>\<open>clean_data\<close>, in each of the three frames every
  key (\<^verbatim>\<open>trip_id\<close>, \<^verbatim>\<open>station_id\<close>, \<^verbatim>\<open>record_id\<close>) of the cleaned frame is a key of the raw
  frame and occurs once in the cleaned frame, the cleaned frame has at most as many rows
  as the raw one, and a cleaned row comes from the first raw row with its key: it carries
  the columns of that row which cleaning does not rewrite.
\<close>

theorem cleaning_creates_no_rows:
  assumes "clean_data cv self = (Inr (), self')"
    and "trips self = Some rt" and "stations self = Some rs" and "maintenance self = Some rm"
  shows "\<exists>ct cs cm. trips self' = Some ct \<and> stations self' = Some cs \<and> maintenance self' = Some cm
           \<and> set (map trip_id ct) \<subseteq> set (map trip_id rt) \<and> distinct (map trip_id ct)
           \<and> length ct \<le> length rt
           \<and> (\<forall>c\<in>set ct. \<exists>p. find (\<lambda>q. trip_id q = trip_id c) rt = Some p
                  \<and> user_id c = user_id p \<and> bike_id c = bike_id p
                  \<and> start_station_id c = start_station_id p \<and> end_station_id c = end_station_id p)
           \<and> set (map station_id cs) \<subseteq> set (map station_id rs) \<and> distinct (map station_id cs)
           \<and> length cs \<le> length rs
           \<and> (\<forall>c\<in>set cs. \<exists>p. find (\<lambda>q. station_id q = station_id c) rs = Some p
                  \<and> station_name c = station_name p)
           \<and> set (map record_id cm) \<subseteq> set (map record_id rm) \<and> distinct (map record_id cm)
           \<and> length cm \<le> length rm
           \<and> (\<forall>c\<in>set cm. \<exists>p. find (\<lambda>q. record_id q = record_id c) rm = Some p
                  \<and> m_bike_id c = m_bike_id p)"
proof -
  from clean_data_stations [OF assms(1,3)]
  obtain cs where cs: "clean_stations cv rs = Inr cs" and st: "stations self' = Some cs"
    by (elim exE conjE)
  note t = clean_data_trips [OF assms(1,2)]
  note m = clean_data_maintenance [OF assms(1,4)]
  note kt = clean_trips_keys [of cv rt]
  note ks = clean_stations_keys [OF cs]
  note km = clean_maintenance_keys [of cv rm]
  from t st m kt(2,1,3,4) ks(2,1,3,4) km(2,1,3,4) show ?thesis
    by (intro exI conjI)
qed


theorem cleaning_creates_no_rows_witness:
  "clean_data sample_conv sample_system = (Inr (), sample_cleaned)
   \<and> trips sample_system = Some sample_trips \<and> stations sample_system = Some sample_stations
   \<and> maintenance sample_system = Some sample_maintenance
   \<and> (\<exists>ct cs cm. trips sample_cleaned = Some ct \<and> stations sample_cleaned = Some cs
         \<and> maintenance sample_cleaned = Some cm
         \<and> set (map trip_id ct) \<subseteq> set (map trip_id sample_trips) \<and> distinct (map trip_id ct)
         \<and> length ct \<le> length sample_trips
         \<and> (\<forall>c\<in>set ct. \<exists>p. find (\<lambda>q. trip_id q = trip_id c) sample_trips = Some p
                \<and> user_id c = user_id p \<and> bike_id c = bike_id p
                \<and> start_station_id c = start_station_id p \<and> end_station_id c = end_station_id p)
         \<and> set (map station_id cs) \<subseteq> set (map station_id sample_stations)
         \<and> distinct (map station_id cs) \<and> length cs \<le> length sample_stations
         \<and> (\<forall>c\<in>set cs. \<exists>p. find (\<lambda>q. station_id q = station_id c) sample_stations = Some p
                \<and> station_name c = station_name p)
         \<and> set (map record_id cm) \<subseteq> set (map record_id sample_maintenance)
         \<and> distinct (map record_id cm) \<and> length cm \<le> length sample_maintenance
         \<and> (\<forall>c\<in>set cm. \<exists>p. find (\<lambda>q. record_id q = record_id c) sample_maintenance = Some p
                \<and> m_bike_id c = m_bike_id p))
   \<and> (\<exists>ct. trips sample_cleaned = Some ct \<and> map trip_id ct = [Integer 1, Integer 4])
   \<and> map trip_id sample_trips = [Integer 1, Integer 2, Integer 1, Integer 4]
   \<and> find (\<lambda>q. trip_id q = Integer 1) sample_trips = Some sample_trip"
proof -
  have rt: "trips sample_system = Some sample_trips"
    and rs: "stations sample_system = Some sample_stations"
    and rm: "maintenance sample_system = Some sample_maintenance"
    by (simp_all add: sample_system_def)
  have ids: "\<exists>ct. trips sample_cleaned = Some ct \<and> map trip_id ct = [Integer 1, Integer 4]"
    by (simp add: sample_cleaned_def)
  have raw_ids: "map trip_id sample_trips = [Integer 1, Integer 2, Integer 1, Integer 4]"
    by (simp add: sample_trips_def sample_trip_def)
  have first: "find (\<lambda>q. trip_id q = Integer 1) sample_trips = Some sample_trip"
    by (simp add: sample_trips_def sample_trip_def)
  from sample_run rt rs rm cleaning_creates_no_rows [OF sample_run rt rs rm] ids raw_ids first
  show ?thesis by (intro conjI)
qed

subsection \<open>Imputation of maintenance costs\<close>

lemma cost_imputed_spec: "cost_imputed df r = r\<lparr>cost := impute_cost_spec df r\<rparr>"
  by (cases "cost r")
    (auto simp: cost_imputed_def impute_cost_spec_def fillna_def median_def group_costs_def
      split: option.splits)

lemma clean_data_returns:
  assumes "trips self = Some rt" and "stations self = Some rs" and "maintenance self = Some rm"
    and "clean_stations cv rs = Inr cs"
  shows "clean_data cv self =
           (Inr (), self\<lparr>trips := Some (clean_trips cv rt), stations := Some cs,
                          maintenance := Some (clean_maintenance cv rm)\<rparr>)"
  using assms by (simp add: clean_data_def)

lemma sample_stations_run:
  "clean_stations sample_conv sample_stations =
     Inr [\<lparr>station_id = Text ''A'', station_name = Text ''Central'', capacity = Integer 12,
           latitude = Float (105 / 2), longitude = Float (67 / 5)\<rparr>]"
  by code_simp

text \<open>
  C9. Once the three frames are loaded and the stations block does not raise,
  \<^verbatim>\<open>clean_data\<close> returns, and the maintenance frame it leaves is the frame kept by the
  filters with every cost imputed as the specification says: a missing cost is the median
  of the non-missing costs of its bike type, or, when that group has none, the median of
  all non-missing costs of the frame.
\<close>

theorem maintenance_cost_imputation:
  assumes "trips self = Some rt" and "stations self = Some rs" and "maintenance self = Some rm"
    and "clean_stations cv rs = Inr cs"
  shows "\<exists>self'. clean_data cv self = (Inr (), self')
           \<and> maintenance self' =
               Some (map (\<lambda>r. r\<lparr>cost := impute_cost_spec (maintenance_kept cv rm) r\<rparr>)
                       (maintenance_kept cv rm))"
proof -
  have "clean_maintenance cv rm =
          map (\<lambda>r. r\<lparr>cost := impute_cost_spec (maintenance_kept cv rm) r\<rparr>) (maintenance_kept cv rm)"
    by (simp add: clean_maintenance_closed Let_def cost_imputed_spec)
  with clean_data_returns [OF assms] show ?thesis by simp
qed

theorem maintenance_cost_imputation_witness:
  "trips sample_system = Some sample_trips \<and> stations sample_system = Some sample_stations
   \<and> maintenance sample_system = Some sample_maintenance
   \<and> (\<exists>cs. clean_stations sample_conv sample_stations = Inr cs)
   \<and> (\<exists>self'. clean_data sample_conv sample_system = (Inr (), self')
         \<and> maintenance self' =
             Some (map (\<lambda>r. r\<lparr>cost := impute_cost_spec (maintenance_kept sample_conv sample_maintenance) r\<rparr>)
                     (maintenance_kept sample_conv sample_maintenance)))
   \<and> map cost (maintenance_kept sample_conv sample_maintenance)
       = [Float 30, Missing, Missing, Float 12]
   \<and> map m_bike_type (maintenance_kept sample_conv sample_maintenance)
       = [Text ''classic'', Text ''classic'', Text ''electric'', Text ''classic'']
   \<and> map (impute_cost_spec (maintenance_kept sample_conv sample_maintenance))
         (maintenance_kept sample_conv sample_maintenance)
       = [Float 30, Float 21, Float 21, Float 12]"
proof -
  have rt: "trips sample_system = Some sample_trips"
    and rs: "stations sample_system = Some sample_stations"
    and rm: "maintenance sample_system = Some sample_maintenance"
    by (simp_all add: sample_system_def)
  have a: "map cost (maintenance_kept sample_conv sample_maintenance)
             = [Float 30, Missing, Missing, Float 12]"
    by code_simp
  have b: "map m_bike_type (maintenance_kept sample_conv sample_maintenance)
             = [Text ''classic'', Text ''classic'', Text ''electric'', Text ''classic'']"
    by code_simp
  have c: "map (impute_cost_spec (maintenance_kept sample_conv sample_maintenance))
             (maintenance_kept sample_conv sample_maintenance)
           = [Float 30, Float 21, Float 21, Float 12]"
    by code_simp
  have d: "\<exists>cs. clean_stations sample_conv sample_stations = Inr cs"
    using sample_stations_run by (rule exI)
  from rt rs rm d maintenance_cost_imputation [OF rt rs rm sample_stations_run] a b c
  show ?thesis by (intro conjI)
qed

subsection \<open>Text normalisation is idempotent\<close>

lemma lower_char_idem: "lower_char (lower_char c) = lower_char c"
  by (simp add: lower_char_def Let_def)

lemma is_space_lower_char: "is_space (lower_char c) = is_space c"
  by (auto simp: lower_char_def is_space_def Let_def)

lemma str_lower_idem: "str_lower (str_lower s) = str_lower s"
  by (simp add: str_lower_def lower_char_idem)

lemma str_strip_lower: "str_strip (str_lower s) = str_lower (str_strip s)"
proof -
  have c: "is_space \<circ> lower_char = is_space"
    by (rule ext) (simp add: is_space_lower_char)
  show ?thesis
    by (simp add: str_strip_def str_lower_def dropWhile_map rev_map c)
qed

lemma last_dropWhile: "dropWhile P xs \<noteq> [] \<Longrightarrow> last (dropWhile P xs) = last xs"
  using last_appendR [of "dropWhile P xs" "takeWhile P xs"] by simp

lemma dropWhile_self: "xs = [] \<or> \<not> P (hd xs) \<Longrightarrow> dropWhile P xs = xs"
  by (cases xs) auto

lemma str_strip_idem: "str_strip (str_strip s) = str_strip s"
proof -
  define A where "A = dropWhile is_space s"
  define B where "B = dropWhile is_space (rev A)"
  have s: "str_strip s = rev B"
    by (simp add: str_strip_def A_def B_def)
  have "dropWhile is_space (rev B) = rev B"
  proof (rule dropWhile_self, cases "B = []")
    case True
    then show "rev B = [] \<or> \<not> is_space (hd (rev B))" by simp
  next
    case False
    then have "last B = last (rev A)"
      unfolding B_def by (rule last_dropWhile)
    moreover from False have "A \<noteq> []"
      by (auto simp: B_def)
    ultimately have "hd (rev B) = hd A"
      using False by (simp add: hd_rev last_rev)
    moreover from \<open>A \<noteq> []\<close> have "\<not> is_space (hd A)"
      unfolding A_def by (rule hd_dropWhile)
    ultimately show "rev B = [] \<or> \<not> is_space (hd (rev B))" by simp
  qed
  moreover have "dropWhile is_space B = B"
    by (simp add: B_def)
  ultimately show ?thesis
    by (simp add: s) (simp add: str_strip_def)
qed

lemma normalize_text_idem: "normalize_text cv (normalize_text cv c) = normalize_text cv c"
  by (simp add: normalize_text_def astype_str_def str_strip_lower str_strip_idem str_lower_idem)

lemma normalize_text_valid:
  "normalize_text cv (Text ''casual'') = Text ''casual''"
  "normalize_text cv (Text ''member'') = Text ''member''"
  "normalize_text cv (Text ''classic'') = Text ''classic''"
  "normalize_text cv (Text ''electric'') = Text ''electric''"
  "normalize_text cv (Text ''completed'') = Text ''completed''"
  "normalize_text cv (Text ''cancelled'') = Text ''cancelled''"
  by (simp_all add: normalize_text_def astype_str_def str_strip_def str_lower_def lower_char_def
      is_space_def)

subsection \<open>Cleaning a cleaned frame\<close>

lemma filter_map_id:
  assumes "\<And>x. x \<in> set xs \<Longrightarrow> f x = x" and "\<And>x. x \<in> set xs \<Longrightarrow> P x"
  shows "filter P (map f xs) = xs"
proof -
  have "map f xs = xs" using assms(1) by (simp add: map_idI)
  then show ?thesis using assms(2) by simp
qed

lemma trip_fixed:
  assumes "start_time r = Timestamp s" and "end_time r = Timestamp e" and "s \<le> e"
    and "duration_minutes r = Float (max (real_of_int (e - s) / 10 ^ 9 / 60) 0)"
    and "distance_km r = Float k" and "0 \<le> k"
    and "isin (user_type r) [''casual'', ''member'']"
    and "isin (bike_type r) [''classic'', ''electric'']"
    and "isin (status r) [''completed'', ''cancelled'']"
  shows "trip_prepared cv df r = r" and "trip_valid r" and "trip_finished r = r"
proof -
  from isin_pair [OF assms(7)] have u: "normalize_text cv (user_type r) = user_type r"
    by (auto simp: normalize_text_valid)
  from isin_pair [OF assms(8)] have b: "normalize_text cv (bike_type r) = bike_type r"
    by (auto simp: normalize_text_valid)
  from isin_pair [OF assms(9)] have st: "normalize_text cv (status r) = status r"
    "\<not> isin (status r) [''nan'', ''none'', []]" "\<exists>t. status r = Text t"
    by (auto simp: normalize_text_valid isin_def)
  show "trip_prepared cv df r = r"
    using assms(1,2,4,5) u b st
    by (auto simp: trip_prepared_def to_datetime_def to_numeric_def fillna_def)
  show "trip_valid r"
    using assms by (simp add: trip_valid_def time_ge_def num_ge_def)
  show "trip_finished r = r"
    using assms(1,2,4) by (simp add: trip_finished_def minutes_between_def clip_lower_def)
qed

lemma clean_trips_idem: "clean_trips cv (clean_trips cv raw) = clean_trips cv raw"
proof -
  define T where "T = clean_trips cv raw"
  have d: "drop_duplicates trip_id T = T"
    unfolding T_def by (rule drop_duplicates_id) (rule clean_trips_keys(1))
  have fx: "trip_prepared cv T r = r \<and> trip_valid r \<and> trip_finished r = r" if "r \<in> set T" for r
  proof -
    from clean_trips_row [OF that [unfolded T_def]] obtain s e k where
      "start_time r = Timestamp s" "end_time r = Timestamp e" "s \<le> e"
      "duration_minutes r = Float (max (real_of_int (e - s) / 10 ^ 9 / 60) 0)"
      "distance_km r = Float k" "0 \<le> k"
      "isin (user_type r) [''casual'', ''member'']"
      "isin (bike_type r) [''classic'', ''electric'']"
      "isin (status r) [''completed'', ''cancelled'']"
      by (elim exE conjE)
    from trip_fixed [OF this] show ?thesis by (intro conjI)
  qed
  have "filter trip_valid (map (trip_prepared cv T) T) = T"
    by (rule filter_map_id) (simp_all add: fx)
  moreover have "map trip_finished T = T"
    by (rule map_idI) (simp add: fx)
  ultimately have "clean_trips cv T = T"
    by (simp add: clean_trips_closed Let_def d)
  then show ?thesis by (simp add: T_def)
qed

lemma station_fixed:
  assumes "station_id r \<noteq> Missing" and "station_name r \<noteq> Missing"
    and "capacity r = Integer n" and "0 < n" and "int64_range n"
    and "latitude r = Float x" and "- 90 \<le> x" and "x \<le> 90"
    and "longitude r = Float y" and "- 180 \<le> y" and "y \<le> 180"
  shows "station_converted cv r = r" and "station_valid r"
    and "Int64_castable (to_numeric cv (capacity r))"
proof -
  show "station_converted cv r = r"
    using assms(3,6,9) by (simp add: station_converted_def to_numeric_def to_Int64_def)
  show "station_valid r"
    using assms by (simp add: station_valid_def num_gt_def between_def)
  show "Int64_castable (to_numeric cv (capacity r))"
    using assms(3,5) by (simp add: to_numeric_def Int64_castable_def)
qed

lemma clean_stations_idem:
  assumes "clean_stations cv raw = Inr S"
  shows "clean_stations cv S = Inr S"
proof -
  have d: "drop_duplicates station_id S = S"
    by (rule drop_duplicates_id) (rule clean_stations_keys(1) [OF assms])
  have fx: "station_converted cv r = r \<and> station_valid r
            \<and> Int64_castable (to_numeric cv (capacity r))" if "r \<in> set S" for r
  proof -
    from clean_stations_row [OF assms that] obtain n x y where
      "station_id r \<noteq> Missing" "station_name r \<noteq> Missing"
      "capacity r = Integer n" "0 < n" "int64_range n"
      "latitude r = Float x" "- 90 \<le> x" "x \<le> 90"
      "longitude r = Float y" "- 180 \<le> y" "y \<le> 180"
      by (elim bexE exE conjE)
    from station_fixed [OF this] show ?thesis by (intro conjI)
  qed
  have "filter station_valid (map (station_converted cv) S) = S"
    by (rule filter_map_id) (simp_all add: fx)
  moreover have "list_all (\<lambda>r. Int64_castable (to_numeric cv (capacity r))) S"
    by (simp add: list_all_iff fx)
  ultimately show ?thesis
    by (simp add: clean_stations_closed Let_def d)
qed

lemma floats_Float_mem: "Float x \<in> set col \<Longrightarrow> floats col \<noteq> []"
  by (induction col rule: floats.induct) auto

lemma floats_all_Missing: "\<forall>c\<in>set col. c = Missing \<Longrightarrow> floats col = []"
  by (induction col rule: floats.induct) auto

lemma median_of_Nil: "median_of [] = None"
  by (simp add: median_of_def)

lemma median_of_not_None: "xs \<noteq> [] \<Longrightarrow> median_of xs \<noteq> None"
  by (cases "odd (length xs)") (simp_all add: median_of_def Let_def del: not_None_eq)

lemma median_None_iff: "median col = None \<longleftrightarrow> floats col = []"
  unfolding median_def using median_of_Nil median_of_not_None [of "floats col"] by metis

lemma maintenance_kept_row:
  assumes "p \<in> set (maintenance_kept cv raw)"
  shows "record_id p \<noteq> Missing" and "m_bike_id p \<noteq> Missing"
    and "isin (m_bike_type p) [''classic'', ''electric'']"
    and "\<exists>t. date p = Timestamp t"
    and "\<exists>c. maintenance_type p = normalize_text cv c"
    and "cost p = Missing \<or> (\<exists>x. cost p = Float x)"
proof -
  define D where "D = drop_duplicates record_id raw"
  from assms obtain q where p: "p = maintenance_converted cv D q" and v: "maintenance_valid p"
    by (auto simp: maintenance_kept_def Let_def D_def)
  from v show "record_id p \<noteq> Missing" "m_bike_id p \<noteq> Missing"
    "isin (m_bike_type p) [''classic'', ''electric'']"
    by (simp_all add: maintenance_valid_def)
  from v have "date p \<noteq> Missing" by (simp add: maintenance_valid_def)
  then show "\<exists>t. date p = Timestamp t"
    using to_datetime_cases [of cv "map date D" "date q"] by (simp add: p maintenance_converted_def)
  show "\<exists>c. maintenance_type p = normalize_text cv c"
    by (rule exI [of _ "maintenance_type q"]) (simp add: p maintenance_converted_def)
  show "cost p = Missing \<or> (\<exists>x. cost p = Float x)"
    using to_numeric_cases [of cv "cost q"] by (simp add: p maintenance_converted_def)
qed

lemma record_fixed:
  assumes "record_id p \<noteq> Missing" and "m_bike_id p \<noteq> Missing"
    and "isin (m_bike_type p) [''classic'', ''electric'']"
    and "\<exists>t. date p = Timestamp t"
    and "\<exists>c. maintenance_type p = normalize_text cv c"
    and "cost p = Missing \<or> (\<exists>x. cost p = Float x)"
  shows "maintenance_converted cv df p = p" and "maintenance_valid p"
proof -
  from isin_pair [OF assms(3)] have b: "normalize_text cv (m_bike_type p) = m_bike_type p"
    by (auto simp: normalize_text_valid)
  from assms(5) have m: "normalize_text cv (maintenance_type p) = maintenance_type p"
    by (auto simp: normalize_text_idem)
  from assms(6) have c: "to_numeric cv (cost p) = cost p"
    by (auto simp: to_numeric_def)
  from assms(4) have d: "to_datetime cv (map date df) (date p) = date p"
    by (auto simp: to_datetime_def)
  show "maintenance_converted cv df p = p"
    by (simp add: maintenance_converted_def b m c d)
  from assms(5) have "maintenance_type p \<noteq> Missing"
    by (auto simp: normalize_text_def)
  moreover from isin_pair [OF assms(3)] have "m_bike_type p \<noteq> Missing" by auto
  moreover from assms(4) have "date p \<noteq> Missing" by auto
  ultimately show "maintenance_valid p"
    using assms(1,2,3) by (simp add: maintenance_valid_def)
qed

text \<open>After imputation the costs of the frame are all numbers or all missing.\<close>

lemma imputed_costs:
  fixes K :: "maintenance_record list"
  assumes K: "\<forall>p\<in>set K. cost p = Missing \<or> (\<exists>x. cost p = Float x)"
  shows "(\<forall>p\<in>set K. \<exists>x. impute_cost_spec K p = Float x)
         \<or> (\<forall>p\<in>set K. impute_cost_spec K p = Missing)"
proof (cases "median_of (floats (map cost K))")
  case None
  then have e: "floats (map cost K) = []"
    using median_of_not_None by blast
  have m: "cost p = Missing" if "p \<in> set K" for p
  proof -
    from K that have "cost p = Missing \<or> (\<exists>x. cost p = Float x)" by (rule bspec)
    moreover have "cost p \<noteq> Float x" for x
      using floats_Float_mem [of x "map cost K"] e that by force
    ultimately show ?thesis by blast
  qed
  have "impute_cost_spec K p = Missing" if "p \<in> set K" for p
  proof -
    have "floats (map cost (filter (\<lambda>q. m_bike_type q = m_bike_type p) K)) = []"
      by (rule floats_all_Missing) (auto simp: m)
    then show ?thesis
      by (simp add: impute_cost_spec_def m [OF that] None median_of_Nil)
  qed
  then show ?thesis by blast
next
  case (Some a)
  have "\<exists>x. impute_cost_spec K p = Float x" if "p \<in> set K" for p
  proof -
    from K that have "cost p = Missing \<or> (\<exists>x. cost p = Float x)" by (rule bspec)
    then show ?thesis
      by (auto simp: impute_cost_spec_def Some split: option.splits)
  qed
  then show ?thesis by blast
qed

lemma impute_fixed:
  fixes M :: "maintenance_record list"
  assumes "(\<forall>r\<in>set M. \<exists>x. cost r = Float x) \<or> (\<forall>r\<in>set M. cost r = Missing)"
    and "r \<in> set M"
  shows "cost_imputed M r = r"
proof -
  from assms(1) have "impute_cost_spec M r = cost r"
  proof
    assume "\<forall>r\<in>set M. \<exists>x. cost r = Float x"
    with assms(2) obtain x where "cost r = Float x" by blast
    then show ?thesis by (simp add: impute_cost_spec_def)
  next
    assume a: "\<forall>r\<in>set M. cost r = Missing"
    then have "floats (map cost M) = []"
      by (intro floats_all_Missing) auto
    moreover from a have "floats (map cost (filter (\<lambda>q. m_bike_type q = m_bike_type r) M)) = []"
      by (intro floats_all_Missing) auto
    moreover from a assms(2) have "cost r = Missing" by blast
    ultimately show ?thesis by (simp add: impute_cost_spec_def median_of_Nil)
  qed
  then show ?thesis by (simp add: cost_imputed_spec)
qed

lemma clean_maintenance_idem:
  "clean_maintenance cv (clean_maintenance cv raw) = clean_maintenance cv raw"
proof -
  define K where "K = maintenance_kept cv raw"
  define M where "M = clean_maintenance cv raw"
  have M: "M = map (\<lambda>p. p\<lparr>cost := impute_cost_spec K p\<rparr>) K"
    by (simp add: M_def K_def clean_maintenance_closed Let_def cost_imputed_spec)
  have Kc: "\<forall>p\<in>set K. cost p = Missing \<or> (\<exists>x. cost p = Float x)"
    using maintenance_kept_row(6) [of _ cv raw] by (simp add: K_def)
  have costs: "(\<forall>r\<in>set M. \<exists>x. cost r = Float x) \<or> (\<forall>r\<in>set M. cost r = Missing)"
    using imputed_costs [OF Kc] by (auto simp: M)
  have d: "drop_duplicates record_id M = M"
    unfolding M_def by (rule drop_duplicates_id) (rule clean_maintenance_keys(1))
  have fx: "maintenance_converted cv M r = r \<and> maintenance_valid r" if "r \<in> set M" for r
  proof -
    from that obtain p where p: "p \<in> set K" and r: "r = p\<lparr>cost := impute_cost_spec K p\<rparr>"
      by (auto simp: M)
    note k = maintenance_kept_row [OF p [unfolded K_def]]
    from costs that have c: "cost r = Missing \<or> (\<exists>x. cost r = Float x)" by blast
    have "record_id r \<noteq> Missing" "m_bike_id r \<noteq> Missing"
      "isin (m_bike_type r) [''classic'', ''electric'']"
      "\<exists>t. date r = Timestamp t" "\<exists>c. maintenance_type r = normalize_text cv c"
      using k(1-5) by (simp_all add: r)
    from record_fixed [OF this c] show ?thesis by (intro conjI)
  qed
  have "filter maintenance_valid (map (maintenance_converted cv M) M) = M"
    by (rule filter_map_id) (simp_all add: fx)
  then have kept: "maintenance_kept cv M = M"
    by (simp add: maintenance_kept_def Let_def d)
  have "map (cost_imputed M) M = M"
    by (rule map_idI) (rule impute_fixed [OF costs])
  then have "clean_maintenance cv M = M"
    by (simp add: clean_maintenance_closed Let_def kept)
  then show ?thesis by (simp add: M_def)
qed

text \<open>
  C6. The cleaning pipeline is idempotent: when \<^verbatim>\<open>clean_data\<close> has returned, running it
  again on the state it left returns as well and leaves the same three frames (trips,
  stations and maintenance).
\<close>

theorem clean_data_idempotent:
  assumes "clean_data cv self = (Inr (), self')"
  shows "clean_data cv self' = (Inr (), self')"
proof -
  from assms obtain t s m s' where s: "clean_stations cv s = Inr s'"
    and self': "self' = self\<lparr>trips := Some (clean_trips cv t), stations := Some s',
                              maintenance := Some (clean_maintenance cv m)\<rparr>"
    by (rule clean_data_Inr)
  have "trips self' = Some (clean_trips cv t)" "stations self' = Some s'"
    "maintenance self' = Some (clean_maintenance cv m)"
    by (simp_all add: self')
  from clean_data_returns [OF this clean_stations_idem [OF s]]
  show ?thesis
    by (simp add: clean_trips_idem clean_maintenance_idem self')
qed

theorem clean_data_idempotent_witness:
  "clean_data sample_conv sample_system = (Inr (), sample_cleaned)
   \<and> clean_data sample_conv sample_cleaned = (Inr (), sample_cleaned)"
  using clean_data_idempotent [OF sample_run] sample_run by (intro conjI)

subsection \<open>Queries: guards and frames\<close>

lemma on_trips_state: "snd (on_trips body self) = self"
  by (simp add: on_trips_def split: sum.splits)

lemma on_trips_stations_state: "snd (on_trips_stations body self) = self"
  by (simp add: on_trips_stations_def split: sum.splits)

lemma on_maint_state: "snd (on_maint body self) = self"
  by (simp add: on_maint_def split: sum.splits)

lemma on_trips_None:
  "trips self = None \<Longrightarrow> on_trips body self = (Inl (RuntimeError ''Trips not loaded''), self)"
  by (simp add: on_trips_def the_trips_def)

lemma on_trips_stations_None:
  "trips self = None \<Longrightarrow>
     on_trips_stations body self = (Inl (RuntimeError ''Trips not loaded''), self)"
  "trips self = Some df \<Longrightarrow> stations self = None \<Longrightarrow>
     on_trips_stations body self = (Inl (RuntimeError ''Stations not loaded''), self)"
  by (simp_all add: on_trips_stations_def the_trips_def the_stations_def)

lemma on_maint_None:
  "maintenance self = None \<Longrightarrow>
     on_maint body self = (Inl (RuntimeError ''Maintenance not loaded''), self)"
  by (simp add: on_maint_def the_maint_def)

lemma on_trips_Some: "trips self = Some df \<Longrightarrow> on_trips body self = (body df, self)"
  by (simp add: on_trips_def the_trips_def)

subsection \<open>Bike utilization\<close>

lemma numbers_Float: "numbers (map Float ds) = Inr ds"
  by (induction ds) simp_all

lemma timestamps_Timestamp: "timestamps (map Timestamp ts) = Inr ts"
  by (induction ts) simp_all

lemma series_max_eq: "series_max ts = (if ts = [] then None else Some (Max (set ts)))"
  by (induction ts) (auto simp: max.commute)

lemma series_min_eq: "series_min ts = (if ts = [] then None else Some (Min (set ts)))"
  by (induction ts) (auto simp: min.commute)

lemma set_unique: "set (unique xs) = set xs"
  by (induction xs) auto

lemma distinct_unique: "distinct (unique xs)"
  by (induction xs) (auto simp: set_unique)

lemma length_unique: "length (unique xs) = card (set xs)"
  using distinct_card [OF distinct_unique, of xs] by (simp add: set_unique)

lemma set_non_missing: "set (filter (\<lambda>c. c \<noteq> Missing) col) = set col - {Missing}"
  by auto

lemma py_div_pos: "0 < b \<Longrightarrow> py_div a b = Inr (a / b)"
  by (simp add: py_div_def)

lemma numbers_error: "numbers col = Inl e \<Longrightarrow> e = TypeError"
  by (induction col arbitrary: e) (auto split: sum.splits cell.splits)

lemma timestamps_error: "timestamps col = Inl e \<Longrightarrow> e = TypeError \<or> e = AttributeError"
  by (induction col arbitrary: e) (auto split: sum.splits cell.splits)

text \<open>The division of \<^verbatim>\<open>bike_utilization_rate\<close> is guarded.\<close>

lemma bike_utilization_rate_no_zero_division:
  "fst (bike_utilization_rate self) \<noteq> Inl ZeroDivisionError"
proof (cases "trips self")
  case None
  then show ?thesis by (simp add: bike_utilization_rate_def on_trips_None)
next
  case (Some df)
  show ?thesis
    unfolding bike_utilization_rate_def on_trips_Some [OF Some]
    by (auto simp: then_do_def Let_def py_div_def split: sum.splits option.splits
        dest: numbers_error timestamps_error)
qed

lemma typed_columns:
  assumes "\<forall>r\<in>set df. \<exists>x. f r = C x"
  shows "\<exists>xs. map f df = map C xs"
  using assms
proof (induction df)
  case Nil
  then show ?case by simp
next
  case (Cons r df)
  then obtain x xs where "f r = C x" "map f df = map C xs" by auto
  then have "map f (r # df) = map C (x # xs)" by simp
  then show ?case by blast
qed

lemma cleaned_trips_columns:
  "\<exists>ds ss es. map duration_minutes (clean_trips cv raw) = map Float ds
      \<and> map start_time (clean_trips cv raw) = map Timestamp ss
      \<and> map end_time (clean_trips cv raw) = map Timestamp es"
proof -
  have "\<forall>r\<in>set (clean_trips cv raw). \<exists>x. duration_minutes r = Float x"
    "\<forall>r\<in>set (clean_trips cv raw). \<exists>x. start_time r = Timestamp x"
    "\<forall>r\<in>set (clean_trips cv raw). \<exists>x. end_time r = Timestamp x"
    using clean_trips_row [of _ cv raw] by blast+
  from typed_columns [OF this(1)] typed_columns [OF this(2)] typed_columns [OF this(3)]
  show ?thesis by blast
qed

lemma bike_utilization_rate_typed:
  assumes df: "trips self = Some df"
    and ds: "map duration_minutes df = map Float ds"
    and ss: "map start_time df = map Timestamp ss"
    and es: "map end_time df = map Timestamp es"
  shows "bike_utilization_rate self =
           (Inr (Some (if card (set (map bike_id df) - {Missing}) = 0
                          \<or> real_of_int (Max (set es) - Min (set ss)) / 10 ^ 9 / 60 \<le> 0
                       then 0
                       else sum_list ds
                            / (real (card (set (map bike_id df) - {Missing}))
                               * (real_of_int (Max (set es) - Min (set ss)) / 10 ^ 9 / 60)))),
            self)"
proof (cases "df = []")
  case True
  then show ?thesis
    using df by (simp add: bike_utilization_rate_def on_trips_Some then_do_def)
next
  case False
  from False ss have s: "ss \<noteq> []" by auto
  from False es have e: "es \<noteq> []" by auto
  define n where "n = card (set (map bike_id df) - {Missing})"
  define w where "w = real_of_int (Max (set es) - Min (set ss)) / 10 ^ 9 / 60"
  have nb: "length (unique (filter (\<lambda>c. c \<noteq> Missing) (map bike_id df))) = n"
    unfolding n_def length_unique set_non_missing ..
  have "bike_utilization_rate self =
          (if n = 0 then Inr (Some 0)
           else if w \<le> 0 then Inr (Some 0)
           else then_do (py_div (sum_list ds) (real n * w)) (\<lambda>q. Inr (Some q)), self)"
    unfolding bike_utilization_rate_def on_trips_Some [OF df] ds ss es numbers_Float
      timestamps_Timestamp then_do_def Let_def nb
    by (simp add: series_max_eq series_min_eq s e w_def)
  also have "\<dots> = (Inr (Some (if n = 0 \<or> w \<le> 0 then 0 else sum_list ds / (real n * w))), self)"
    by (simp add: then_do_def py_div_pos)
  finally show ?thesis unfolding n_def w_def .
qed

text \<open>
  C5. \<^verbatim>\<open>bike_utilization_rate\<close> never raises a division by zero, in any state. On the
  frame \<^verbatim>\<open>clean_data\<close> leaves (durations are floats, start and end times are timestamps)
  it returns 0.0 when the number of distinct bike ids is zero or the window from the
  earliest start to the latest end is zero or negative, and otherwise the sum of the
  durations divided by the number of distinct bike ids times that window in minutes.
\<close>

theorem bike_utilization_rate_guarded:
  assumes "clean_data cv s0 = (Inr (), self)"
  shows "(\<forall>s. fst (bike_utilization_rate s) \<noteq> Inl ZeroDivisionError)
         \<and> (\<exists>df ds ss es.
               trips self = Some df \<and> map duration_minutes df = map Float ds
               \<and> map start_time df = map Timestamp ss \<and> map end_time df = map Timestamp es
               \<and> bike_utilization_rate self =
                   (Inr (Some (if card (set (map bike_id df) - {Missing}) = 0
                                  \<or> real_of_int (Max (set es) - Min (set ss)) / 10 ^ 9 / 60 \<le> 0
                               then 0
                               else sum_list ds
                                    / (real (card (set (map bike_id df) - {Missing}))
                                       * (real_of_int (Max (set es) - Min (set ss)) / 10 ^ 9 / 60)))),
                    self))"
proof -
  from assms obtain t where t: "trips self = Some (clean_trips cv t)"
    by (elim clean_data_Inr) simp
  from cleaned_trips_columns [of cv t] obtain ds ss es
    where c: "map duration_minutes (clean_trips cv t) = map Float ds"
      "map start_time (clean_trips cv t) = map Timestamp ss"
      "map end_time (clean_trips cv t) = map Timestamp es"
    by (elim exE conjE)
  note v = bike_utilization_rate_typed [OF t c]
  have z: "\<forall>s. fst (bike_utilization_rate s) \<noteq> Inl ZeroDivisionError"
    by (simp add: bike_utilization_rate_no_zero_division)
  from z t c v show ?thesis by (intro conjI exI)
qed

theorem bike_utilization_rate_guarded_witness:
  "clean_data sample_conv sample_system = (Inr (), sample_cleaned)
   \<and> fst (bike_utilization_rate sample_cleaned) \<noteq> Inl ZeroDivisionError
   \<and> (\<exists>df ds ss es.
         trips sample_cleaned = Some df \<and> map duration_minutes df = map Float ds
         \<and> map start_time df = map Timestamp ss \<and> map end_time df = map Timestamp es
         \<and> bike_utilization_rate sample_cleaned =
             (Inr (Some (if card (set (map bike_id df) - {Missing}) = 0
                            \<or> real_of_int (Max (set es) - Min (set ss)) / 10 ^ 9 / 60 \<le> 0
                         then 0
                         else sum_list ds
                              / (real (card (set (map bike_id df) - {Missing}))
                                 * (real_of_int (Max (set es) - Min (set ss)) / 10 ^ 9 / 60)))),
              sample_cleaned))
   \<and> bike_utilization_rate sample_cleaned = (Inr (Some (3 / 2)), sample_cleaned)
   \<and> bike_utilization_rate (sample_cleaned\<lparr>trips := Some []\<rparr>)
       = (Inr (Some 0), sample_cleaned\<lparr>trips := Some []\<rparr>)"
proof -
  note g = bike_utilization_rate_guarded [OF sample_run]
  from g have a: "fst (bike_utilization_rate sample_cleaned) \<noteq> Inl ZeroDivisionError"
    by (elim conjE allE)
  have b: "bike_utilization_rate sample_cleaned = (Inr (Some (3 / 2)), sample_cleaned)"
    by code_simp
  have c: "bike_utilization_rate (sample_cleaned\<lparr>trips := Some []\<rparr>)
             = (Inr (Some 0), sample_cleaned\<lparr>trips := Some []\<rparr>)"
    by code_simp
  from sample_run a conjunct2 [OF g] b c show ?thesis by (intro conjI)
qed

subsection \<open>Queries before loading and before cleaning\<close>

lemma outcome_state: "snd (q self) = self \<Longrightarrow> snd (outcome q self) = self"
  by (cases "q self") (auto simp: outcome_def split: sum.splits)

lemma outcome_raise: "q self = (Inl e, self) \<Longrightarrow> outcome q self = (Some e, self)"
  by (simp add: outcome_def)

lemmas query_defs =
  total_trips_summary_def top_start_stations_def top_end_stations_def peak_usage_hours_def
  busiest_day_of_week_def avg_distance_by_user_type_def bike_utilization_rate_def
  monthly_trip_trend_def top_active_users_def maintenance_cost_by_bike_type_def top_routes_def
  trip_completion_rate_def avg_trips_per_user_by_type_def
  bikes_highest_maintenance_frequency_def outlier_trips_def revenue_by_user_type_def

lemma queries_keep_state:
  "\<forall>q\<in>set (trips_queries cv n th @ stations_queries cv n @ maintenance_queries cv n). snd (q self) = self"
  by (simp add: trips_queries_def stations_queries_def maintenance_queries_def query_defs
      outcome_state on_trips_state on_trips_stations_state on_maint_state)

lemma trips_queries_raise:
  assumes "trips self = None"
  shows "\<forall>q\<in>set (trips_queries cv n th). q self = (Some (RuntimeError ''Trips not loaded''), self)"
  by (simp add: trips_queries_def query_defs outcome_raise on_trips_None [OF assms]
      on_trips_stations_None(1) [OF assms])

lemma stations_queries_raise:
  assumes "trips self = Some df" and "stations self = None"
  shows "\<forall>q\<in>set (stations_queries cv n). q self = (Some (RuntimeError ''Stations not loaded''), self)"
  by (simp add: stations_queries_def query_defs outcome_raise on_trips_stations_None(2) [OF assms])

lemma maintenance_queries_raise:
  assumes "maintenance self = None"
  shows "\<forall>q\<in>set (maintenance_queries cv n).
           q self = (Some (RuntimeError ''Maintenance not loaded''), self)"
  by (simp add: maintenance_queries_def query_defs outcome_raise on_maint_None [OF assms])

text \<open>
  C2, as the claim states it: a query called before the cleaning stage has run would fail
  with a precondition error. After \<^verbatim>\<open>load_data\<close> and before \<^verbatim>\<open>clean_data\<close> the guard
  passes (the frame is not \<^verbatim>\<open>None\<close>) and \<^verbatim>\<open>total_trips_summary\<close> returns a summary of the
  raw frame; the state is not a cleaned one, \<^verbatim>\<open>clean_data\<close> changes it.
\<close>

theorem summary_before_cleaning:
  "fst (total_trips_summary sample_loaded)
     = Inr \<lparr>total_trips = 1, total_distance_km = 26 / 5, avg_duration_min = Some 30\<rparr>
   \<and> clean_data sample_conv sample_loaded \<noteq> (Inr (), sample_loaded)"
  by code_simp

text \<open>
  C2, amended. Every analytics query fails with the precondition error
  (\<^verbatim>\<open>RuntimeError\<close>, "... not loaded") when the frame it reads has not been loaded: the
  fourteen queries on trips when \<^verbatim>\<open>trips\<close> is \<^verbatim>\<open>None\<close>, the three of them that join the
  stations when \<^verbatim>\<open>stations\<close> is \<^verbatim>\<open>None\<close>, the two queries on maintenance when
  \<^verbatim>\<open>maintenance\<close> is \<^verbatim>\<open>None\<close>. The guard tests for \<^verbatim>\<open>None\<close>, not for cleaning. No query
  changes the state, whether it returns or raises.
\<close>

theorem queries_guarded_and_pure:
  "(trips self = None \<longrightarrow>
      (\<forall>q\<in>set (trips_queries cv n th). q self = (Some (RuntimeError ''Trips not loaded''), self)))
   \<and> (trips self \<noteq> None \<and> stations self = None \<longrightarrow>
        (\<forall>q\<in>set (stations_queries cv n).
           q self = (Some (RuntimeError ''Stations not loaded''), self)))
   \<and> (maintenance self = None \<longrightarrow>
        (\<forall>q\<in>set (maintenance_queries cv n).
           q self = (Some (RuntimeError ''Maintenance not loaded''), self)))
   \<and> (\<forall>q\<in>set (trips_queries cv n th @ stations_queries cv n @ maintenance_queries cv n).
         snd (q self) = self)"
proof (intro conjI impI)
  assume "trips self = None"
  then show "\<forall>q\<in>set (trips_queries cv n th).
               q self = (Some (RuntimeError ''Trips not loaded''), self)"
    by (rule trips_queries_raise)
next
  assume "trips self \<noteq> None \<and> stations self = None"
  then obtain df where "trips self = Some df" "stations self = None" by auto
  then show "\<forall>q\<in>set (stations_queries cv n).
               q self = (Some (RuntimeError ''Stations not loaded''), self)"
    by (rule stations_queries_raise)
next
  assume "maintenance self = None"
  then show "\<forall>q\<in>set (maintenance_queries cv n).
               q self = (Some (RuntimeError ''Maintenance not loaded''), self)"
    by (rule maintenance_queries_raise)
next
  show "\<forall>q\<in>set (trips_queries cv n th @ stations_queries cv n @ maintenance_queries cv n).
          snd (q self) = self"
    by (rule queries_keep_state)
qed

theorem queries_guarded_and_pure_witness:
  "trips init_system = None \<and> maintenance init_system = None
   \<and> outcome total_trips_summary init_system
       = (Some (RuntimeError ''Trips not loaded''), init_system)
   \<and> outcome (outlier_trips 3) init_system
       = (Some (RuntimeError ''Trips not loaded''), init_system)
   \<and> outcome maintenance_cost_by_bike_type init_system
       = (Some (RuntimeError ''Maintenance not loaded''), init_system)
   \<and> trips (init_system\<lparr>trips := Some []\<rparr>) \<noteq> None
   \<and> stations (init_system\<lparr>trips := Some []\<rparr>) = None
   \<and> outcome (top_start_stations sample_conv 10) (init_system\<lparr>trips := Some []\<rparr>)
       = (Some (RuntimeError ''Stations not loaded''), init_system\<lparr>trips := Some []\<rparr>)
   \<and> snd (outcome revenue_by_user_type sample_cleaned) = sample_cleaned"
proof -
  have t: "trips init_system = None" and m: "maintenance init_system = None"
    by (simp_all add: init_system_def)
  have t': "trips (init_system\<lparr>trips := Some []\<rparr>) \<noteq> None"
    and s': "stations (init_system\<lparr>trips := Some []\<rparr>) = None"
    by (simp_all add: init_system_def)
  note a = queries_guarded_and_pure [of init_system sample_conv 10 3]
  note b = queries_guarded_and_pure [of "init_system\<lparr>trips := Some []\<rparr>" sample_conv 10 3]
  note c = queries_guarded_and_pure [of sample_cleaned sample_conv 10 3]
  note a1 = a [THEN conjunct1, THEN mp, OF t]
  note a2 = a [THEN conjunct2, THEN conjunct2, THEN conjunct1, THEN mp, OF m]
  note b1 = b [THEN conjunct2, THEN conjunct1, THEN mp, OF conjI [OF t' s']]
  note c1 = c [THEN conjunct2, THEN conjunct2, THEN conjunct2]
  have "outcome total_trips_summary init_system
          = (Some (RuntimeError ''Trips not loaded''), init_system)"
    "outcome (outlier_trips 3) init_system = (Some (RuntimeError ''Trips not loaded''), init_system)"
    using a1 by (simp_all add: trips_queries_def)
  moreover have "outcome maintenance_cost_by_bike_type init_system
          = (Some (RuntimeError ''Maintenance not loaded''), init_system)"
    using a2 by (simp add: maintenance_queries_def)
  moreover have "outcome (top_start_stations sample_conv 10) (init_system\<lparr>trips := Some []\<rparr>)
       = (Some (RuntimeError ''Stations not loaded''), init_system\<lparr>trips := Some []\<rparr>)"
    using b1 by (simp add: stations_queries_def)
  moreover have "snd (outcome revenue_by_user_type sample_cleaned) = sample_cleaned"
    using c1 by (simp add: trips_queries_def)
  ultimately show ?thesis using t m t' s' by (intro conjI)
qed

subsection \<open>Sorting by count\<close>








subsection \<open>Ranked queries\<close>




end
